theory Spec2Isabelle
  imports Complex_Main
begin

section \<open>User management (flappy.py, lines 8-132)\<close>

text \<open>
  Python integers are unbounded and are modelled as \<open>int\<close>. A \<open>Score\<close> object holds the
  two counters; each method takes the object and returns it updated.
\<close>

record Score =
  current_score :: int
  high_score :: int

definition Score_init :: "Score" where
  "Score_init = \<lparr>current_score = 0, high_score = 0\<rparr>"

definition Score_increment :: "Score \<Rightarrow> Score" where
  "Score_increment s = s\<lparr>current_score := current_score s + 1\<rparr>"

definition Score_reset :: "Score \<Rightarrow> Score" where
  "Score_reset s = s\<lparr>current_score := 0\<rparr>"

definition Score_update_high_score :: "Score \<Rightarrow> Score" where
  "Score_update_high_score s =
     (if current_score s > high_score s then s\<lparr>high_score := current_score s\<rparr> else s)"

record User =
  username :: string
  password :: string
  score :: Score

definition User_init :: "string \<Rightarrow> string \<Rightarrow> User" where
  "User_init name pw = \<lparr>username = name, password = pw, score = Score_init\<rparr>"

text \<open>The dictionary that \<open>User.to_dict\<close> builds for the JSON file.\<close>

record UserDict =
  dict_username :: string
  dict_password :: string
  dict_score :: int
  dict_high_score :: int

definition User_to_dict :: "User \<Rightarrow> UserDict" where
  "User_to_dict u =
     \<lparr>dict_username = username u, dict_password = password u,
      dict_score = current_score (score u), dict_high_score = high_score (score u)\<rparr>"

text \<open>
  The database object: the \<open>users\<close> dictionary, and the JSON object last written to the
  file \<open>db_filename\<close> (\<open>None\<close> while the file does not exist). \<open>save_users\<close> rewrites the
  whole file from \<open>users\<close>.
\<close>

record UserDatabase =
  db_filename :: string
  users :: "string \<rightharpoonup> User"
  file_content :: "(string \<rightharpoonup> UserDict) option"

definition UserDatabase_save_users :: "UserDatabase \<Rightarrow> UserDatabase" where
  "UserDatabase_save_users db =
     db\<lparr>file_content := Some (\<lambda>name. map_option User_to_dict (users db name))\<rparr>"

definition UserDatabase_create_account ::
  "string \<Rightarrow> string \<Rightarrow> UserDatabase \<Rightarrow> bool \<times> UserDatabase" where
  "UserDatabase_create_account name pw db =
     (case users db name of
        Some u \<Rightarrow> (False, db)
      | None \<Rightarrow>
          (True, UserDatabase_save_users (db\<lparr>users := (users db)(name \<mapsto> User_init name pw)\<rparr>)))"

definition UserDatabase_login :: "string \<Rightarrow> string \<Rightarrow> UserDatabase \<Rightarrow> bool" where
  "UserDatabase_login name pw db =
     (case users db name of Some u \<Rightarrow> password u = pw | None \<Rightarrow> False)"

definition UserDatabase_update_high_score ::
  "string \<Rightarrow> int \<Rightarrow> UserDatabase \<Rightarrow> UserDatabase" where
  "UserDatabase_update_high_score name new_score db =
     (case users db name of
        Some user \<Rightarrow>
          (if new_score > high_score (score user)
           then UserDatabase_save_users
                  (db\<lparr>users := (users db)
                          (name \<mapsto> user\<lparr>score := (score user)\<lparr>high_score := new_score\<rparr>\<rparr>)\<rparr>)
           else db)
      | None \<Rightarrow> db)"

definition UserDatabase_get_high_score :: "string \<Rightarrow> UserDatabase \<Rightarrow> int" where
  "UserDatabase_get_high_score name db =
     (case users db name of Some u \<Rightarrow> high_score (score u) | None \<Rightarrow> 0)"


section \<open>Numbers, rectangles and the objects of the game (lines 459-560)\<close>

text \<open>
  Python numbers. The bird's \<open>y\<close> and \<open>speed\<close> start as integers and become floats once
  \<open>apply_gravity\<close> adds \<open>0.9\<close>. Comparisons between Python numbers are exact, so they
  are comparisons of the values in \<open>real\<close>.
\<close>

datatype pynum = PyInt int | PyFloat real

fun num_val :: "pynum \<Rightarrow> real" where
  "num_val (PyInt i) = of_int i"
| "num_val (PyFloat r) = r"

text \<open>
  Two operations on floats are left open and are a parameter \<open>fl\<close> of every function that
  uses them. \<open>round_double\<close> takes an exact real to the double that stands for it: it
  rounds a float literal, the conversion of an integer operand, and the exact sum of two
  doubles. \<open>to_pixel\<close> is the conversion of a float coordinate to the integer a
  \<open>pygame.Rect\<close> stores; pygame is not part of the repository, no version of it is
  fixed, and its versions differ (some truncate, some round to nearest).
\<close>

record FloatOps =
  round_double :: "real \<Rightarrow> real"
  to_pixel :: "real \<Rightarrow> int"

text \<open>
  An integer plus an integer is exact. With a float operand, Python first converts an
  integer operand to a double and then adds the two doubles.
\<close>

fun to_float :: "FloatOps \<Rightarrow> pynum \<Rightarrow> real" where
  "to_float fl (PyInt i) = round_double fl (of_int i)"
| "to_float fl (PyFloat r) = r"

fun py_add :: "FloatOps \<Rightarrow> pynum \<Rightarrow> pynum \<Rightarrow> pynum" where
  "py_add fl (PyInt a) (PyInt b) = PyInt (a + b)"
| "py_add fl a b = PyFloat (round_double fl (to_float fl a + to_float fl b))"

text \<open>A coordinate assigned to a \<open>pygame.Rect\<close>: an integer as it is, a float converted.\<close>

fun to_coord :: "FloatOps \<Rightarrow> pynum \<Rightarrow> int" where
  "to_coord fl (PyInt i) = i"
| "to_coord fl (PyFloat r) = to_pixel fl r"

record Rect =
  rect_x :: int
  rect_y :: int
  rect_w :: int
  rect_h :: int

definition Rect_center :: "Rect \<Rightarrow> int \<times> int" where
  "Rect_center r = (rect_x r + rect_w r div 2, rect_y r + rect_h r div 2)"

definition Rect_set_center :: "int \<times> int \<Rightarrow> Rect \<Rightarrow> Rect" where
  "Rect_set_center c r = r\<lparr>rect_x := fst c - rect_w r div 2, rect_y := snd c - rect_h r div 2\<rparr>"

text \<open>
  Modelled from the spec: \<open>pygame.Rect.colliderect\<close> is library code, not part of the
  repository. The spec describes it as the axis-aligned rectangle overlap test on the
  x and y extents.
\<close>

definition colliderect :: "Rect \<Rightarrow> Rect \<Rightarrow> bool" where
  "colliderect a b \<longleftrightarrow>
     rect_x a < rect_x b + rect_w b \<and> rect_x b < rect_x a + rect_w a \<and>
     rect_y a < rect_y b + rect_h b \<and> rect_y b < rect_y a + rect_h a"

text \<open>The module-level constants. \<open>length\<close> is the first and \<open>width\<close> the second component
  of the window size given to \<open>pygame.display.set_mode\<close>.\<close>

definition length' :: int where "length' = 1940"
definition width :: int where "width = 1200"
definition PIPE_WIDTH :: int where "PIPE_WIDTH = 100"
definition PIPE_HEIGHT :: int where "PIPE_HEIGHT = 600"
definition PIPE_GAP :: int where "PIPE_GAP = 220"
definition PIPE_SPEED :: int where "PIPE_SPEED = 7"

text \<open>
  Objects that several attributes refer to live in a store, addressed by references:
  the four \<open>Bird\<close> objects, their \<open>Rect\<close>s (a hand-off makes two birds share one), and the
  pipe lists (the game and its collision detector may hold the same list). \<open>Pipe\<close>
  objects are kept by value inside the lists: besides \<open>self.pipes\<close> only a list the
  detector still holds can contain a pipe, and \<open>check_collisions\<close> points the detector
  at \<open>self.pipes\<close> before every call of \<open>detect_collision\<close>. The same record carries the environment
  the program reads: the random generator, the millisecond clock and the event queue,
  each as a sequence of future readings with a position.
\<close>

type_synonym ref = nat

record Bird =
  bird_x :: int
  bird_y :: pynum
  image :: string
  rect :: ref
  speed :: pynum
  lives :: int

text \<open>A pipe after \<open>__init__\<close> has only \<open>width\<close> and \<open>height\<close>; \<open>generate_pipes\<close> adds the rest.\<close>

record PipeInit =
  init_width :: int
  init_height :: int

record Pipe =
  pipe_width :: int
  pipe_height :: int
  pipe_x :: int
  pipe_top :: Rect
  pipe_bottom :: Rect

datatype Key = K_r | K_SPACE | K_q | K_n | K_other

datatype Event = QUIT | KEYDOWN Key | OtherEvent

record Runtime =
  birds :: "ref \<Rightarrow> Bird"
  rects :: "ref \<Rightarrow> Rect"
  pipe_lists :: "ref \<Rightarrow> Pipe list"
  next_bird :: ref
  next_rect :: ref
  next_list :: ref
  rand_source :: "nat \<Rightarrow> nat"
  rand_pos :: nat
  ticks_source :: "nat \<Rightarrow> int"
  ticks_pos :: nat
  event_source :: "nat \<Rightarrow> Event list"
  event_pos :: nat

definition upd_bird :: "ref \<Rightarrow> (Bird \<Rightarrow> Bird) \<Rightarrow> Runtime \<Rightarrow> Runtime" where
  "upd_bird b f rt = rt\<lparr>birds := (birds rt)(b := f (birds rt b))\<rparr>"

definition upd_rect :: "ref \<Rightarrow> (Rect \<Rightarrow> Rect) \<Rightarrow> Runtime \<Rightarrow> Runtime" where
  "upd_rect r f rt = rt\<lparr>rects := (rects rt)(r := f (rects rt r))\<rparr>"

definition upd_list :: "ref \<Rightarrow> (Pipe list \<Rightarrow> Pipe list) \<Rightarrow> Runtime \<Rightarrow> Runtime" where
  "upd_list l f rt = rt\<lparr>pipe_lists := (pipe_lists rt)(l := f (pipe_lists rt l))\<rparr>"

text \<open>
  \<open>random.randint(a, b)\<close>: the next reading of the generator, brought into \<open>[a, b]\<close>. Every
  call in the program has constant bounds with \<open>a \<le> b\<close>.
\<close>

definition random_randint :: "int \<Rightarrow> int \<Rightarrow> Runtime \<Rightarrow> int \<times> Runtime" where
  "random_randint a b rt =
     (a + int (rand_source rt (rand_pos rt) mod nat (b - a + 1)),
      rt\<lparr>rand_pos := rand_pos rt + 1\<rparr>)"

definition get_ticks :: "Runtime \<Rightarrow> int \<times> Runtime" where
  "get_ticks rt = (ticks_source rt (ticks_pos rt), rt\<lparr>ticks_pos := ticks_pos rt + 1\<rparr>)"

definition event_get :: "Runtime \<Rightarrow> Event list \<times> Runtime" where
  "event_get rt = (event_source rt (event_pos rt), rt\<lparr>event_pos := event_pos rt + 1\<rparr>)"

subsection \<open>Bird (lines 481-520)\<close>

text \<open>
  The constructor scales the image to 60 by 60, takes its rectangle (at the origin) and
  centres it on the bird's position. Both new objects get fresh references.
\<close>

definition Bird_init :: "int \<Rightarrow> int \<Rightarrow> string \<Rightarrow> Runtime \<Rightarrow> ref \<times> Runtime" where
  "Bird_init x y image_path rt =
     (let r = next_rect rt; b = next_bird rt;
          box = Rect_set_center (x, y) \<lparr>rect_x = 0, rect_y = 0, rect_w = 60, rect_h = 60\<rparr>;
          obj = \<lparr>bird_x = x, bird_y = PyInt y, image = image_path, rect = r,
                 speed = PyInt 0, lives = 3\<rparr>
      in (b, rt\<lparr>birds := (birds rt)(b := obj), rects := (rects rt)(r := box),
                 next_bird := b + 1, next_rect := r + 1\<rparr>))"

definition Bird_flap :: "ref \<Rightarrow> Runtime \<Rightarrow> Runtime" where
  "Bird_flap b rt = upd_bird b (\<lambda>B. B\<lparr>speed := PyInt (- 9)\<rparr>) rt"

definition Bird_apply_gravity :: "FloatOps \<Rightarrow> ref \<Rightarrow> Runtime \<Rightarrow> Runtime" where
  "Bird_apply_gravity fl b rt =
     (let rt1 = upd_bird b (\<lambda>B. B\<lparr>bird_y := py_add fl (bird_y B) (speed B)\<rparr>) rt;
          B1 = birds rt1 b;
          rt2 = upd_rect (rect B1) (Rect_set_center (bird_x B1, to_coord fl (bird_y B1))) rt1
      in upd_bird b
           (\<lambda>B. B\<lparr>speed := py_add fl (speed B) (PyFloat (round_double fl (9 / 10)))\<rparr>) rt2)"

definition Bird_reduce_life :: "ref \<Rightarrow> Runtime \<Rightarrow> Runtime" where
  "Bird_reduce_life b rt = upd_bird b (\<lambda>B. B\<lparr>lives := lives B - 1\<rparr>) rt"

subsection \<open>Pipe (lines 523-560)\<close>

definition Pipe_init :: "Runtime \<Rightarrow> PipeInit \<times> Runtime" where
  "Pipe_init rt =
     (let (h, rt1) = random_randint 100 PIPE_HEIGHT rt
      in (\<lparr>init_width = PIPE_WIDTH, init_height = h\<rparr>, rt1))"

definition Pipe_generate_pipes :: "PipeInit \<Rightarrow> Pipe" where
  "Pipe_generate_pipes p =
     (let x = length';
          top = \<lparr>rect_x = x, rect_y = 0, rect_w = init_width p, rect_h = init_height p\<rparr>;
          height_bottom = length' - PIPE_GAP - init_height p;
          start_bottom = init_height p + PIPE_GAP;
          bottom = \<lparr>rect_x = x, rect_y = start_bottom, rect_w = init_width p,
                    rect_h = height_bottom\<rparr>
      in \<lparr>pipe_width = init_width p, pipe_height = init_height p, pipe_x = x,
          pipe_top = top, pipe_bottom = bottom\<rparr>)"

definition Pipe_move :: "Pipe \<Rightarrow> Pipe" where
  "Pipe_move p =
     (let x = pipe_x p - PIPE_SPEED
      in p\<lparr>pipe_x := x, pipe_top := (pipe_top p)\<lparr>rect_x := x\<rparr>,
            pipe_bottom := (pipe_bottom p)\<lparr>rect_x := x\<rparr>\<rparr>)"

definition Pipe_is_off_screen :: "Pipe \<Rightarrow> int" where
  "Pipe_is_off_screen p = (if pipe_x p + pipe_width p < 0 then 1 else 0)"


subsection \<open>CollisionDetector (lines 563-596)\<close>

text \<open>The detector holds references to a bird and to a pipe list, not copies of them.\<close>

record CollisionDetector =
  cd_bird :: ref
  cd_pipes :: ref
  cd_screen_width :: int
  cd_screen_height :: int
  cd_score :: int

definition CollisionDetector_init :: "ref \<Rightarrow> ref \<Rightarrow> int \<Rightarrow> int \<Rightarrow> CollisionDetector" where
  "CollisionDetector_init b ps screen_w screen_h =
     \<lparr>cd_bird = b, cd_pipes = ps, cd_screen_width = screen_w, cd_screen_height = screen_h,
      cd_score = 0\<rparr>"

text \<open>The loop over the pipes, carrying the flag \<open>collision_detected\<close>.\<close>

fun detect_pipes :: "Rect \<Rightarrow> Pipe list \<Rightarrow> bool \<Rightarrow> bool" where
  "detect_pipes box [] collision_detected = collision_detected"
| "detect_pipes box (pipe # rest) collision_detected =
     (let c1 = (if colliderect box (pipe_top pipe) then True else collision_detected);
          c2 = (if colliderect box (pipe_bottom pipe) then True else c1)
      in detect_pipes box rest c2)"

definition CollisionDetector_detect_collision :: "CollisionDetector \<Rightarrow> Runtime \<Rightarrow> bool" where
  "CollisionDetector_detect_collision cd rt =
     (let B = birds rt (cd_bird cd);
          box = rects rt (rect B);
          c0 = detect_pipes box (pipe_lists rt (cd_pipes cd)) False;
          c1 = (if num_val (bird_y B) < 0 then True else c0);
          c2 = (if num_val (bird_y B) > of_int (cd_screen_height cd - rect_h box)
                then True else c1)
      in c2)"

section \<open>Game (lines 599-979)\<close>

text \<open>
  The attributes of the \<open>Game\<close> object. Attributes that hold objects others may hold too
  are references into \<open>runtime\<close>. Colours are RGB triples, ground images are named by their
  path. \<open>ground_x\<close> and \<open>ground_y\<close> are left out: only \<open>render_ground\<close> uses them, and the
  drawing functions write nothing else that the game logic reads.
\<close>

type_synonym colour = "nat \<times> nat \<times> nat"

record Game =
  background_color :: colour
  background_color1 :: colour
  background_color2 :: colour
  background_color3 :: colour
  screen_width :: int
  screen_height :: int
  running :: bool
  game_started :: bool
  paused :: bool
  score_system :: Score
  bird :: ref
  bird1 :: ref
  bird2 :: ref
  bird3 :: ref
  pipes :: ref
  last_pipe_time :: int
  next_pipe_frequency :: int
  collision_detector :: CollisionDetector
  ground_image :: string
  ground_image1 :: string
  ground_image2 :: string
  ground_image3 :: string
  level_2_reached :: bool
  level_3_reached :: bool
  level_4_reached :: bool
  runtime :: Runtime

text \<open>
  The statements shared by \<open>__init__\<close> and \<open>start_new_game\<close> (lines 603-645 and 869-906):
  four new birds, a new empty pipe list, the clock and the first spawn interval, a new
  detector on the new bird and list. The score object is an argument: \<open>__init__\<close> makes a
  new one, \<open>start_new_game\<close> keeps the old one and zeroes its current score.
\<close>

definition Game_setup :: "Score \<Rightarrow> Runtime \<Rightarrow> Game" where
  "Game_setup sc rt0 =
     (let (b, rta) = Bird_init (length' div 2) (width div 2) ''/home/miruna/ia4/blue_bird.png'' rt0;
          (b1, rtb) = Bird_init (length' div 2) (width div 2) ''/home/miruna/ia4/blue_bird.png'' rta;
          (b2, rtc) = Bird_init (length' div 2) (width div 2) ''/home/miruna/ia4/green_bird.png'' rtb;
          (b3, rtd) = Bird_init (length' div 2) (width div 2) ''/home/miruna/ia4/beige_bird.png'' rtc;
          ps = next_list rtd;
          rte = rtd\<lparr>pipe_lists := (pipe_lists rtd)(ps := []), next_list := ps + 1\<rparr>;
          (t, rtf) = get_ticks rte;
          (f, rtg) = random_randint 2500 4500 rtf
      in \<lparr>background_color = (135, 206, 235),
          background_color1 = (135, 206, 235),
          background_color2 = (255, 240, 208),
          background_color3 = (255, 209, 253),
          screen_width = length',
          screen_height = width,
          running = True,
          game_started = False,
          paused = False,
          score_system = sc,
          bird = b, bird1 = b1, bird2 = b2, bird3 = b3,
          pipes = ps,
          last_pipe_time = t,
          next_pipe_frequency = f,
          collision_detector = CollisionDetector_init b ps length' width,
          ground_image = ''/home/miruna/ia4/iarba.png'',
          ground_image1 = ''/home/miruna/ia4/iarba.png'',
          ground_image2 = ''/home/miruna/ia4/flori.png'',
          ground_image3 = ''/home/miruna/ia4/fluturi.png'',
          level_2_reached = False,
          level_3_reached = False,
          level_4_reached = False,
          runtime = rtg\<rparr>)"

definition Game_init :: "Runtime \<Rightarrow> Game" where
  "Game_init rt0 = Game_setup Score_init rt0"

definition Game_start_new_game :: "Game \<Rightarrow> Game" where
  "Game_start_new_game g = Game_setup ((score_system g)\<lparr>current_score := 0\<rparr>) (runtime g)"

fun process_input_event :: "Event \<Rightarrow> Game \<Rightarrow> Game" where
  "process_input_event QUIT g = g\<lparr>running := False\<rparr>"
| "process_input_event (KEYDOWN k) g =
     (let g1 = (if k = K_r then g\<lparr>paused := True\<rparr> else g)
      in if k = K_SPACE
         then (let g2 = (if \<not> game_started g1 then g1\<lparr>game_started := True\<rparr> else g1)
               in g2\<lparr>runtime := Bird_flap (bird g2) (runtime g2)\<rparr>)
         else g1)"
| "process_input_event OtherEvent g = g"

definition Game_process_input :: "Game \<Rightarrow> Game" where
  "Game_process_input g =
     (let (events, rt1) = event_get (runtime g)
      in fold process_input_event events (g\<lparr>runtime := rt1\<rparr>))"

definition Game_reset_bird_and_pipes :: "Game \<Rightarrow> Game" where
  "Game_reset_bird_and_pipes g =
     (let rt1 = upd_bird (bird g) (\<lambda>B. B\<lparr>bird_x := screen_width g div 2\<rparr>) (runtime g);
          rt2 = upd_bird (bird g) (\<lambda>B. B\<lparr>bird_y := PyInt (screen_height g div 2)\<rparr>) rt1;
          rt3 = upd_bird (bird g) (\<lambda>B. B\<lparr>speed := PyInt 0\<rparr>) rt2;
          rt4 = upd_list (pipes g) (\<lambda>ps. []) rt3
      in g\<lparr>runtime := rt4, game_started := False\<rparr>)"

definition Game_check_collisions :: "Game \<Rightarrow> Game" where
  "Game_check_collisions g =
     (let g1 = g\<lparr>collision_detector := (collision_detector g)\<lparr>cd_pipes := pipes g\<rparr>\<rparr>
      in if CollisionDetector_detect_collision (collision_detector g1) (runtime g1)
         then (let g2 = g1\<lparr>runtime := Bird_reduce_life (bird g1) (runtime g1)\<rparr>
               in if lives (birds (runtime g2) (bird g2)) = 0
                  then g2\<lparr>running := False\<rparr>
                  else Game_reset_bird_and_pipes g2)
         else g1\<lparr>score_system := Score_increment (score_system g1)\<rparr>)"

text \<open>
  The interval drawn after a spawn, lines 695-700: the base draw is always made, then the
  \<open>if\<close>/\<open>elif\<close> chain on the score, in the order of the source.
\<close>

definition next_frequency :: "int \<Rightarrow> Runtime \<Rightarrow> int \<times> Runtime" where
  "next_frequency sc rt0 =
     (let (f, rt1) = random_randint 2500 4500 rt0
      in if sc > 4000 then random_randint 2000 3000 rt1
         else if sc > 10000 then random_randint 1500 2500 rt1
         else (f, rt1))"

definition Game_generate_pipes :: "Game \<Rightarrow> Game" where
  "Game_generate_pipes g =
     (let (now, rt1) = get_ticks (runtime g);
          time = now - last_pipe_time g
      in if time > next_pipe_frequency g
         then (let (p, rt2) = Pipe_init rt1;
                   new_pipe = Pipe_generate_pipes p;
                   rt3 = upd_list (pipes g) (\<lambda>ps. ps @ [new_pipe]) rt2;
                   (t, rt4) = get_ticks rt3;
                   (f, rt5) = next_frequency (current_score (score_system g)) rt4
               in g\<lparr>last_pipe_time := t, next_pipe_frequency := f, runtime := rt5\<rparr>)
         else g\<lparr>runtime := rt1\<rparr>)"

text \<open>
  \<open>move_pipes\<close> moves every pipe of the current list, then builds a new list of the pipes
  still on screen and makes \<open>self.pipes\<close> refer to it.
\<close>

definition Game_move_pipes :: "Game \<Rightarrow> Game" where
  "Game_move_pipes g =
     (let rt1 = upd_list (pipes g) (map Pipe_move) (runtime g);
          valid_pipes = filter (\<lambda>pipe. Pipe_is_off_screen pipe = 0) (pipe_lists rt1 (pipes g));
          l = next_list rt1;
          rt2 = rt1\<lparr>pipe_lists := (pipe_lists rt1)(l := valid_pipes), next_list := l + 1\<rparr>
      in g\<lparr>pipes := l, runtime := rt2\<rparr>)"

text \<open>
  The three branches of \<open>check_level_transition\<close> run the same statements on \<open>bird2\<close>,
  \<open>bird3\<close> and \<open>bird1\<close> (lines 799-811, 826-838, 853-865): save \<open>x\<close>, \<open>y\<close>, \<open>rect\<close>, the
  rectangle's centre and \<open>lives\<close> of the current bird, make the other bird current,
  assign the saved values to it, and point the detector at it. \<open>speed\<close> is not among
  the saved attributes.
\<close>

definition change_bird :: "ref \<Rightarrow> Game \<Rightarrow> Game" where
  "change_bird new g =
     (let old = birds (runtime g) (bird g);
          saved_x = bird_x old;
          saved_y = bird_y old;
          saved_rect = rect old;
          saved_rect_center = Rect_center (rects (runtime g) saved_rect);
          saved_lives = lives old;
          g1 = g\<lparr>bird := new\<rparr>;
          rt1 = upd_bird (bird g1) (\<lambda>B. B\<lparr>bird_x := saved_x\<rparr>) (runtime g1);
          rt2 = upd_bird (bird g1) (\<lambda>B. B\<lparr>bird_y := saved_y\<rparr>) rt1;
          rt3 = upd_bird (bird g1) (\<lambda>B. B\<lparr>rect := saved_rect\<rparr>) rt2;
          rt4 = upd_rect (rect (birds rt3 (bird g1))) (Rect_set_center saved_rect_center) rt3;
          rt5 = upd_bird (bird g1) (\<lambda>B. B\<lparr>lives := saved_lives\<rparr>) rt4
      in g1\<lparr>runtime := rt5,
            collision_detector := (collision_detector g1)\<lparr>cd_bird := bird g1\<rparr>\<rparr>)"

definition current_lvl :: "Game \<Rightarrow> int" where
  "current_lvl g = (current_score (score_system g) div 300) mod 3"

definition Game_check_level_transition :: "Game \<Rightarrow> Game" where
  "Game_check_level_transition g =
     (if current_lvl g = 1 \<and> \<not> level_2_reached g then
        change_bird (bird2 g)
          (g\<lparr>level_2_reached := True, level_3_reached := False, level_4_reached := False,
             background_color := background_color2 g, ground_image := ground_image2 g\<rparr>)
      else if current_lvl g = 2 \<and> \<not> level_3_reached g then
        change_bird (bird3 g)
          (g\<lparr>level_3_reached := True, level_2_reached := False, level_4_reached := False,
             background_color := background_color3 g, ground_image := ground_image3 g\<rparr>)
      else if current_lvl g = 0 \<and> \<not> level_4_reached g then
        change_bird (bird1 g)
          (g\<lparr>level_4_reached := True, level_2_reached := False, level_3_reached := False,
             background_color := background_color1 g, ground_image := ground_image1 g\<rparr>)
      else g)"


subsection \<open>One iteration of \<open>running_loop\<close> (lines 921-970)\<close>

text \<open>
  \<open>sys.exit()\<close> raises \<open>SystemExit\<close> and ends the program: a result on the left. The pause
  menu handles the events of one more read of the queue.
\<close>

datatype Exit = SystemExit

fun pause_menu_event :: "Event \<Rightarrow> Game \<Rightarrow> Exit + Game" where
  "pause_menu_event QUIT g = Inr (g\<lparr>running := False\<rparr>)"
| "pause_menu_event (KEYDOWN k) g =
     (if k = K_r then Inr (g\<lparr>paused := False\<rparr>)
      else if k = K_q then Inl SystemExit
      else if k = K_n then Inr (Game_start_new_game g)
      else Inr g)"
| "pause_menu_event OtherEvent g = Inr g"

fun pause_menu_events :: "Event list \<Rightarrow> Game \<Rightarrow> Exit + Game" where
  "pause_menu_events [] g = Inr g"
| "pause_menu_events (e # es) g =
     (case pause_menu_event e g of
        Inl x \<Rightarrow> Inl x
      | Inr g' \<Rightarrow> pause_menu_events es g')"

text \<open>Lines 923-953: level check, input, and the pause menu when the game is paused.\<close>

definition running_loop_head :: "Game \<Rightarrow> Exit + Game" where
  "running_loop_head g =
     (let g1 = Game_check_level_transition g;
          g2 = Game_process_input g1
      in if paused g2
         then (let (events, rt1) = event_get (runtime g2)
               in pause_menu_events events (g2\<lparr>runtime := rt1\<rparr>))
         else Inr g2)"

text \<open>Lines 956-966, the statements under \<open>if self.game_started and not self.paused\<close>.\<close>

definition running_loop_active ::
  "FloatOps \<Rightarrow> string \<Rightarrow> Game \<times> UserDatabase \<Rightarrow> Game \<times> UserDatabase" where
  "running_loop_active fl name s =
     (let g1 = Game_generate_pipes (fst s);
          g2 = Game_move_pipes g1;
          g3 = Game_check_collisions g2;
          g4 = g3\<lparr>runtime := Bird_apply_gravity fl (bird g3) (runtime g3)\<rparr>
      in if current_score (score_system g4) > high_score (score_system g4)
         then (g4, UserDatabase_update_high_score name (current_score (score_system g4)) (snd s))
         else (g4, snd s))"

definition running_loop_body ::
  "FloatOps \<Rightarrow> string \<Rightarrow> Game \<times> UserDatabase \<Rightarrow> Exit + Game \<times> UserDatabase" where
  "running_loop_body fl name s =
     (case running_loop_head (fst s) of
        Inl x \<Rightarrow> Inl x
      | Inr g \<Rightarrow>
          if game_started g \<and> \<not> paused g
          then Inr (running_loop_active fl name (g, snd s))
          else Inr (g, snd s))"

section \<open>Notions used in the statements\<close>

text \<open>The bird the game currently plays with, and its rectangle.\<close>

definition active_bird :: "Game \<Rightarrow> Bird" where
  "active_bird g = birds (runtime g) (bird g)"

definition active_box :: "Game \<Rightarrow> Rect" where
  "active_box g = rects (runtime g) (rect (active_bird g))"

text \<open>
  What a detector reads through its references: its bird, that bird's rectangle, its
  pipe list. A rectangle hits a pipe when it collides with the pipe's top or bottom.
\<close>

definition detector_bird :: "CollisionDetector \<Rightarrow> Runtime \<Rightarrow> Bird" where
  "detector_bird cd rt = birds rt (cd_bird cd)"

definition detector_box :: "CollisionDetector \<Rightarrow> Runtime \<Rightarrow> Rect" where
  "detector_box cd rt = rects rt (rect (detector_bird cd rt))"

definition detector_pipes :: "CollisionDetector \<Rightarrow> Runtime \<Rightarrow> Pipe list" where
  "detector_pipes cd rt = pipe_lists rt (cd_pipes cd)"

definition hits_pipe :: "Rect \<Rightarrow> Pipe \<Rightarrow> bool" where
  "hits_pipe box p \<longleftrightarrow> colliderect box (pipe_top p) \<or> colliderect box (pipe_bottom p)"

text \<open>The rectangle that \<open>detect_collision\<close> reads in a game state.\<close>

definition tested_box :: "Game \<Rightarrow> Rect" where
  "tested_box g = detector_box (collision_detector g) (runtime g)"

text \<open>What \<open>detect_collision\<close> returns when \<open>check_collisions\<close> calls it in state \<open>g\<close>.\<close>

definition collision_now :: "Game \<Rightarrow> bool" where
  "collision_now g =
     CollisionDetector_detect_collision ((collision_detector g)\<lparr>cd_pipes := pipes g\<rparr>) (runtime g)"

text \<open>The state in which \<open>check_collisions\<close> is called (line 961), from the state at line 955.\<close>

definition before_check :: "Game \<Rightarrow> Game" where
  "before_check g = Game_move_pipes (Game_generate_pipes g)"

text \<open>One of the three branches of \<open>check_level_transition\<close> is taken.\<close>

definition transition_fires :: "Game \<Rightarrow> bool" where
  "transition_fires g \<longleftrightarrow>
     current_lvl g = 1 \<and> \<not> level_2_reached g \<or>
     current_lvl g = 2 \<and> \<not> level_3_reached g \<or>
     current_lvl g = 0 \<and> \<not> level_4_reached g"

text \<open>The bird that the branch taken makes current: \<open>bird2\<close>, \<open>bird3\<close> or \<open>bird1\<close>.\<close>

definition incoming_bird :: "Game \<Rightarrow> ref" where
  "incoming_bird g =
     (if current_lvl g = 1 \<and> \<not> level_2_reached g then bird2 g
      else if current_lvl g = 2 \<and> \<not> level_3_reached g then bird3 g
      else bird1 g)"

text \<open>
  The detector looks at the current bird, the bird stands at the screen centre, and the
  rectangle the detector reads is centred there too.
\<close>

definition box_on_centre :: "Game \<Rightarrow> bool" where
  "box_on_centre g \<longleftrightarrow>
     cd_bird (collision_detector g) = bird g \<and>
     bird_x (active_bird g) = screen_width g div 2 \<and>
     bird_y (active_bird g) = PyInt (screen_height g div 2) \<and>
     Rect_center (tested_box g) = (screen_width g div 2, screen_height g div 2)"

text \<open>
  An iteration of the loop from \<open>g\<close> that does not reach the statements under
  \<open>if self.game_started and not self.paused\<close>: it ends in the state \<open>h\<close> that lines
  923-953 produce, with no collision check.
\<close>

definition idle_iteration :: "Game \<Rightarrow> Game \<Rightarrow> bool" where
  "idle_iteration g h \<longleftrightarrow>
     running_loop_head g = Inr h \<and> \<not> (game_started h \<and> \<not> paused h)"

section \<open>Example states\<close>

text \<open>
  A runtime before the game object exists: nothing allocated, a generator that always
  reads 1000, a clock that advances 5 s per reading, and a player who presses SPACE
  in every frame but the second, where no event arrives. Floats that never round.
\<close>

definition exact_floats :: FloatOps where
  "exact_floats = \<lparr>round_double = (\<lambda>r. r), to_pixel = (\<lambda>r. \<lfloor>r\<rfloor>)\<rparr>"

definition runtime0 :: Runtime where
  "runtime0 =
     \<lparr>birds = (\<lambda>_. \<lparr>bird_x = 0, bird_y = PyInt 0, image = [], rect = 0, speed = PyInt 0,
                     lives = 0\<rparr>),
      rects = (\<lambda>_. \<lparr>rect_x = 0, rect_y = 0, rect_w = 0, rect_h = 0\<rparr>),
      pipe_lists = (\<lambda>_. []),
      next_bird = 0, next_rect = 0, next_list = 0,
      rand_source = (\<lambda>_. 1000), rand_pos = 0,
      ticks_source = (\<lambda>n. 5000 * int n), ticks_pos = 0,
      event_source = (\<lambda>n. if n = Suc 0 then [] else [KEYDOWN K_SPACE]), event_pos = 0\<rparr>"

text \<open>The game after its first frame's level check and the first SPACE.\<close>

definition game_flapping :: Game where
  "game_flapping = Game_process_input (Game_check_level_transition (Game_init runtime0))"

definition with_score :: "int \<Rightarrow> Game \<Rightarrow> Game" where
  "with_score n g = g\<lparr>score_system := (score_system g)\<lparr>current_score := n\<rparr>\<rparr>"

text \<open>The same game with the bird placed at height \<open>y\<close>, its rectangle centred there.\<close>

definition with_bird_y :: "int \<Rightarrow> Game \<Rightarrow> Game" where
  "with_bird_y y g =
     g\<lparr>runtime := upd_rect (rect (birds (runtime g) (bird g)))
               (Rect_set_center (bird_x (birds (runtime g) (bird g)), y))
               (upd_bird (bird g) (\<lambda>B. B\<lparr>bird_y := PyInt y\<rparr>) (runtime g))\<rparr>"

definition db_alice :: UserDatabase where
  "db_alice = snd (UserDatabase_create_account ''alice'' ''pw''
                 \<lparr>db_filename = ''users.json'', users = Map.empty, file_content = None\<rparr>)"


text \<open>
  A frame in which the bird has flown above the top of the screen, and the state at the
  end of that frame. In the following frame no event arrives and the game stays
  unstarted; in the frame after that SPACE is pressed: the state when its active part
  begins.
\<close>

definition game_hit :: Game where
  "game_hit = with_bird_y (- 3) game_flapping"

definition game_after_hit :: Game where
  "game_after_hit = fst (running_loop_active exact_floats ''alice'' (game_hit, db_alice))"

definition game_idle :: Game where
  "game_idle = Game_process_input (Game_check_level_transition game_after_hit)"

definition game_next :: Game where
  "game_next = Game_process_input (Game_check_level_transition game_idle)"

text \<open>
  The flapping game later on: one life lost, the bird at height 400, the score at 300.
\<close>

definition game_handoff :: Game where
  "game_handoff =
     with_bird_y 400 (with_score 300
       (game_flapping\<lparr>runtime := Bird_reduce_life (bird game_flapping) (runtime game_flapping)\<rparr>))"

text \<open>The flapping game after its first pipe has been spawned.\<close>

definition game_with_pipe :: Game where
  "game_with_pipe = Game_generate_pipes game_flapping"

section \<open>Score\<close>

text \<open>
  C8. \<open>Score.update_high_score\<close> sets \<open>high_score\<close> to the maximum of \<open>high_score\<close> and
  \<open>current_score\<close>, so it never lowers it; it leaves \<open>current_score\<close> alone, and a second
  call changes nothing. \<open>Score.reset\<close> zeroes \<open>current_score\<close> and keeps \<open>high_score\<close>.
\<close>

theorem Score_update_high_score_max:
  "high_score (Score_update_high_score s) = max (high_score s) (current_score s) \<and>
   high_score s \<le> high_score (Score_update_high_score s) \<and>
   current_score (Score_update_high_score s) = current_score s \<and>
   Score_update_high_score (Score_update_high_score s) = Score_update_high_score s \<and>
   current_score (Score_reset s) = 0 \<and>
   high_score (Score_reset s) = high_score s"
  by (simp add: Score_update_high_score_def Score_reset_def)

section \<open>Shared lemmas\<close>

lemmas heap_simps = upd_bird_def upd_rect_def upd_list_def

lemma detect_pipes_iff:
  "detect_pipes box ps c \<longleftrightarrow>
     c \<or> (\<exists>p \<in> set ps. colliderect box (pipe_top p) \<or> colliderect box (pipe_bottom p))"
  by (induction ps arbitrary: c) (auto simp: Let_def)

lemma Rect_set_own_center: "Rect_set_center (Rect_center r) r = r"
  by (simp add: Rect_set_center_def Rect_center_def)

lemma Rect_center_set_center: "Rect_center (Rect_set_center c r) = c"
  by (simp add: Rect_center_def Rect_set_center_def)

text \<open>The example states, field by field.\<close>

lemma game_flapping_fields:
  "bird game_flapping = Suc 0" "bird1 game_flapping = Suc 0" "bird2 game_flapping = 2"
  "bird3 game_flapping = 3" "pipes game_flapping = 0"
  "collision_detector game_flapping =
     \<lparr>cd_bird = Suc 0, cd_pipes = 0, cd_screen_width = 1940, cd_screen_height = 1200, cd_score = 0\<rparr>"
  "screen_width game_flapping = 1940" "screen_height game_flapping = 1200"
  "running game_flapping" "game_started game_flapping" "\<not> paused game_flapping"
  "score_system game_flapping = \<lparr>current_score = 0, high_score = 0\<rparr>"
  "\<not> level_2_reached game_flapping" "\<not> level_3_reached game_flapping"
  "level_4_reached game_flapping"
  "last_pipe_time game_flapping = 0" "next_pipe_frequency game_flapping = 3500"
  by (simp_all add: game_flapping_def Game_process_input_def Game_check_level_transition_def
      change_bird_def current_lvl_def Game_init_def Game_setup_def Bird_init_def event_get_def
      get_ticks_def random_randint_def runtime0_def Bird_flap_def heap_simps Let_def
      length'_def width_def CollisionDetector_init_def Score_init_def)

lemma game_flapping_runtime:
  "birds (runtime game_flapping) (Suc 0) =
     \<lparr>bird_x = 970, bird_y = PyInt 600, image = ''/home/miruna/ia4/blue_bird.png'', rect = 0,
      speed = PyInt (- 9), lives = 3\<rparr>"
  "birds (runtime game_flapping) 2 =
     \<lparr>bird_x = 970, bird_y = PyInt 600, image = ''/home/miruna/ia4/green_bird.png'', rect = 2,
      speed = PyInt 0, lives = 3\<rparr>"
  "rects (runtime game_flapping) 0 = \<lparr>rect_x = 940, rect_y = 570, rect_w = 60, rect_h = 60\<rparr>"
  "pipe_lists (runtime game_flapping) 0 = []"
  "next_list (runtime game_flapping) = Suc 0"
  "rand_source (runtime game_flapping) = (\<lambda>_. 1000)" "rand_pos (runtime game_flapping) = Suc 0"
  "ticks_source (runtime game_flapping) = (\<lambda>n. 5000 * int n)"
  "ticks_pos (runtime game_flapping) = Suc 0"
  "event_source (runtime game_flapping) = (\<lambda>n. if n = Suc 0 then [] else [KEYDOWN K_SPACE])"
  "event_pos (runtime game_flapping) = Suc 0"
  by (simp_all add: game_flapping_def Game_process_input_def Game_check_level_transition_def
      change_bird_def current_lvl_def Game_init_def Game_setup_def Bird_init_def event_get_def
      get_ticks_def random_randint_def runtime0_def Bird_flap_def heap_simps Let_def
      length'_def width_def CollisionDetector_init_def Score_init_def
      Rect_set_center_def Rect_center_def)

lemmas game_flapping_simps = game_flapping_fields game_flapping_runtime

lemma game_with_pipe_fields:
  "pipes game_with_pipe = 0"
  "collision_detector game_with_pipe =
     \<lparr>cd_bird = Suc 0, cd_pipes = 0, cd_screen_width = 1940, cd_screen_height = 1200, cd_score = 0\<rparr>"
  "birds (runtime game_with_pipe) (Suc 0) =
     \<lparr>bird_x = 970, bird_y = PyInt 600, image = ''/home/miruna/ia4/blue_bird.png'', rect = 0,
      speed = PyInt (- 9), lives = 3\<rparr>"
  "rects (runtime game_with_pipe) 0 = \<lparr>rect_x = 940, rect_y = 570, rect_w = 60, rect_h = 60\<rparr>"
  "pipe_lists (runtime game_with_pipe) 0 =
     [\<lparr>pipe_width = 100, pipe_height = 599, pipe_x = 1940,
       pipe_top = \<lparr>rect_x = 1940, rect_y = 0, rect_w = 100, rect_h = 599\<rparr>,
       pipe_bottom = \<lparr>rect_x = 1940, rect_y = 819, rect_w = 100, rect_h = 1121\<rparr>\<rparr>]"
  "next_pipe_frequency game_with_pipe = 3500"
  "last_pipe_time game_with_pipe = 10000"
  by (simp_all add: game_with_pipe_def Game_generate_pipes_def get_ticks_def Pipe_init_def
      Pipe_generate_pipes_def next_frequency_def random_randint_def heap_simps Let_def
      game_flapping_simps length'_def PIPE_WIDTH_def PIPE_HEIGHT_def PIPE_GAP_def)

section \<open>Pipe geometry\<close>

text \<open>
  C1. A pipe made with top height \<open>g\<close> has a top bar of height \<open>g\<close> and a bottom bar that
  starts at \<open>g + PIPE_GAP\<close>. The bottom bar's height is computed from \<open>length\<close>, the
  horizontal size of the window, and not from \<open>width\<close>, the screen height of the game:
  it is 740 more than \<open>H - PIPE_GAP - g\<close> for the screen height \<open>H\<close>. For the pipe drawn
  from the example generator (\<open>g = 599\<close>) the bottom bar is 1121 high, not 381.
\<close>

theorem Pipe_generate_pipes_geometry:
  "rect_h (pipe_top (Pipe_generate_pipes p)) = init_height p \<and>
   rect_y (pipe_bottom (Pipe_generate_pipes p)) = init_height p + PIPE_GAP \<and>
   rect_h (pipe_bottom (Pipe_generate_pipes p)) = length' - PIPE_GAP - init_height p \<and>
   rect_h (pipe_bottom (Pipe_generate_pipes p)) = width - PIPE_GAP - init_height p + 740 \<and>
   screen_height (Game_init rt) = width \<and>
   init_height (fst (Pipe_init runtime0)) = 599 \<and>
   rect_h (pipe_bottom (Pipe_generate_pipes (fst (Pipe_init runtime0)))) = 1121 \<and>
   width - PIPE_GAP - init_height (fst (Pipe_init runtime0)) = 381"
  by (simp add: Pipe_generate_pipes_def Pipe_init_def random_randint_def runtime0_def Let_def
      length'_def width_def PIPE_GAP_def PIPE_HEIGHT_def PIPE_WIDTH_def Game_init_def
      Game_setup_def split_def)

section \<open>Spawn interval\<close>

text \<open>
  C4. The interval drawn after a spawn comes from 2500-4500 when the score is at most
  4000 and from 2000-3000 for every score above 4000. The branch for scores above 10000
  stands behind the test for 4000 and is never taken: at score 10001, with a generator
  that reads 1000, the next interval is 3000, outside 1500-2500.
\<close>

theorem next_frequency_second_band_unreachable:
  "next_frequency sc rt =
     (if sc > 4000 then random_randint 2000 3000 (snd (random_randint 2500 4500 rt))
      else random_randint 2500 4500 rt) \<and>
   current_score (score_system (with_score 10001 game_flapping)) = 10001 \<and>
   length (pipe_lists (runtime (Game_generate_pipes (with_score 10001 game_flapping)))
            (pipes (Game_generate_pipes (with_score 10001 game_flapping)))) = 1 \<and>
   next_pipe_frequency (Game_generate_pipes (with_score 10001 game_flapping)) = 3000"
  by (simp add: next_frequency_def split_def Let_def with_score_def Game_generate_pipes_def
      get_ticks_def Pipe_init_def random_randint_def heap_simps game_flapping_simps)

section \<open>Collision detection\<close>

lemma detect_collision_iff:
  "CollisionDetector_detect_collision cd rt \<longleftrightarrow>
     (\<exists>p \<in> set (detector_pipes cd rt). hits_pipe (detector_box cd rt) p) \<or>
     num_val (bird_y (detector_bird cd rt)) < 0 \<or>
     num_val (bird_y (detector_bird cd rt)) >
       of_int (cd_screen_height cd - rect_h (detector_box cd rt))"
  by (auto simp add: CollisionDetector_detect_collision_def Let_def detect_pipes_iff
      detector_pipes_def detector_box_def detector_bird_def hits_pipe_def)

lemma with_bird_y_fields:
  "collision_detector (with_bird_y y g) = collision_detector g"
  "pipes (with_bird_y y g) = pipes g"
  "bird (with_bird_y y g) = bird g"
  "pipe_lists (runtime (with_bird_y y g)) = pipe_lists (runtime g)"
  "birds (runtime (with_bird_y y g)) b =
     (if b = bird g then (birds (runtime g) b)\<lparr>bird_y := PyInt y\<rparr> else birds (runtime g) b)"
  "rects (runtime (with_bird_y y g)) r =
     (if r = rect (birds (runtime g) (bird g))
      then Rect_set_center (bird_x (birds (runtime g) (bird g)), y) (rects (runtime g) r)
      else rects (runtime g) r)"
  by (simp_all add: with_bird_y_def heap_simps)

lemma game_with_pipe_bird: "bird game_with_pipe = Suc 0"
  by (simp add: game_with_pipe_def Game_generate_pipes_def split_def Let_def game_flapping_simps)

lemmas example_eval =
  with_bird_y_fields game_with_pipe_fields game_with_pipe_bird game_flapping_simps
  detector_pipes_def detector_box_def detector_bird_def hits_pipe_def colliderect_def
  Rect_set_center_def

text \<open>
  C3, as the code has it. The two boundary tests are strict. With the bird exactly at
  \<open>y = 0\<close> or at \<open>y = screen_height - rect.height\<close> neither fires, and the result is true
  exactly when the bird's rectangle hits a pipe. Beyond either boundary the result is
  true.
\<close>

theorem detect_collision_boundary_strict:
  "(0 \<le> cd_screen_height cd - rect_h (detector_box cd rt) \<and>
    (num_val (bird_y (detector_bird cd rt)) = 0 \<or>
     num_val (bird_y (detector_bird cd rt)) =
       of_int (cd_screen_height cd - rect_h (detector_box cd rt))) \<longrightarrow>
      (CollisionDetector_detect_collision cd rt \<longleftrightarrow>
         (\<exists>p \<in> set (detector_pipes cd rt). hits_pipe (detector_box cd rt) p))) \<and>
   (num_val (bird_y (detector_bird cd rt)) < 0 \<or>
    num_val (bird_y (detector_bird cd rt)) >
      of_int (cd_screen_height cd - rect_h (detector_box cd rt)) \<longrightarrow>
      CollisionDetector_detect_collision cd rt)"
  by (auto simp add: detect_collision_iff)

text \<open>
  The bird of the game with one pipe, put on the top boundary and on the bottom
  boundary (1200 - 60 = 1140): no collision, the pipe is far to the right. Three pixels
  above the top: a collision.
\<close>

theorem detect_collision_boundary_strict_witness:
  "num_val (bird_y (detector_bird (collision_detector (with_bird_y 0 game_with_pipe))
      (runtime (with_bird_y 0 game_with_pipe)))) = 0 \<and>
   \<not> CollisionDetector_detect_collision (collision_detector (with_bird_y 0 game_with_pipe))
      (runtime (with_bird_y 0 game_with_pipe)) \<and>
   num_val (bird_y (detector_bird (collision_detector (with_bird_y 1140 game_with_pipe))
      (runtime (with_bird_y 1140 game_with_pipe)))) = 1140 \<and>
   \<not> CollisionDetector_detect_collision (collision_detector (with_bird_y 1140 game_with_pipe))
      (runtime (with_bird_y 1140 game_with_pipe)) \<and>
   num_val (bird_y (detector_bird (collision_detector (with_bird_y (- 3) game_with_pipe))
      (runtime (with_bird_y (- 3) game_with_pipe)))) < 0 \<and>
   CollisionDetector_detect_collision (collision_detector (with_bird_y (- 3) game_with_pipe))
      (runtime (with_bird_y (- 3) game_with_pipe))"
  using
    detect_collision_boundary_strict [of "collision_detector (with_bird_y 0 game_with_pipe)"
      "runtime (with_bird_y 0 game_with_pipe)"]
    detect_collision_boundary_strict [of "collision_detector (with_bird_y 1140 game_with_pipe)"
      "runtime (with_bird_y 1140 game_with_pipe)"]
    detect_collision_boundary_strict [of "collision_detector (with_bird_y (- 3) game_with_pipe)"
      "runtime (with_bird_y (- 3) game_with_pipe)"]
  by (simp add: example_eval)

text \<open>
  The claim as stated fails: with no pipe on the screen, the bird exactly on the top
  boundary, or exactly on the bottom boundary, is no collision.
\<close>

theorem detect_collision_boundary_counterexample:
  "num_val (bird_y (detector_bird (collision_detector (with_bird_y 0 game_flapping))
      (runtime (with_bird_y 0 game_flapping)))) = 0 \<and>
   \<not> CollisionDetector_detect_collision (collision_detector (with_bird_y 0 game_flapping))
      (runtime (with_bird_y 0 game_flapping)) \<and>
   num_val (bird_y (detector_bird (collision_detector (with_bird_y 1140 game_flapping))
      (runtime (with_bird_y 1140 game_flapping)))) =
     of_int (cd_screen_height (collision_detector (with_bird_y 1140 game_flapping)) -
       rect_h (detector_box (collision_detector (with_bird_y 1140 game_flapping))
         (runtime (with_bird_y 1140 game_flapping)))) \<and>
   \<not> CollisionDetector_detect_collision (collision_detector (with_bird_y 1140 game_flapping))
      (runtime (with_bird_y 1140 game_flapping))"
  by (simp add: CollisionDetector_detect_collision_def Let_def example_eval)

text \<open>
  C7. When the bird's \<open>y\<close> lies strictly between 0 and \<open>screen_height - rect.height\<close> and
  its rectangle hits no pipe of the list, \<open>detect_collision\<close> returns false.
\<close>

theorem detect_collision_false_inside:
  assumes "0 < num_val (bird_y (detector_bird cd rt))"
    and "num_val (bird_y (detector_bird cd rt)) <
           of_int (cd_screen_height cd - rect_h (detector_box cd rt))"
    and "\<forall>p \<in> set (detector_pipes cd rt). \<not> hits_pipe (detector_box cd rt) p"
  shows "\<not> CollisionDetector_detect_collision cd rt"
  using assms by (simp add: detect_collision_iff)

theorem detect_collision_false_inside_witness:
  "0 < num_val (bird_y (detector_bird (collision_detector game_with_pipe)
         (runtime game_with_pipe))) \<and>
   num_val (bird_y (detector_bird (collision_detector game_with_pipe) (runtime game_with_pipe)))
     < 1140 \<and>
   length (detector_pipes (collision_detector game_with_pipe) (runtime game_with_pipe)) = 1 \<and>
   \<not> CollisionDetector_detect_collision (collision_detector game_with_pipe)
       (runtime game_with_pipe)"
  using detect_collision_false_inside [of "collision_detector game_with_pipe"
      "runtime game_with_pipe"]
  by (simp add: example_eval)

section \<open>Level transition\<close>

lemma change_bird_handoff:
  "active_bird (change_bird new g) =
     (birds (runtime g) new)\<lparr>bird_x := bird_x (active_bird g), bird_y := bird_y (active_bird g),
        rect := rect (active_bird g), lives := lives (active_bird g)\<rparr>"
  by (simp add: change_bird_def active_bird_def Let_def heap_simps)

lemma change_bird_box: "active_box (change_bird new g) = active_box g"
  by (simp add: change_bird_def active_bird_def active_box_def Let_def heap_simps
      Rect_set_own_center)

lemma change_bird_detector:
  "cd_bird (collision_detector (change_bird new g)) = bird (change_bird new g)"
  by (simp add: change_bird_def Let_def)

lemma change_bird_new: "bird (change_bird new g) = new"
  by (simp add: change_bird_def Let_def)

text \<open>
  C2, as the code has it. When a branch of \<open>check_level_transition\<close> is taken, the bird
  of that branch (\<open>bird2\<close>, \<open>bird3\<close> or \<open>bird1\<close>) becomes the current bird and the bird of
  the detector. It ends with the \<open>x\<close>, \<open>y\<close>, rectangle object (so the same bounding box)
  and \<open>lives\<close> of the outgoing bird. Its \<open>speed\<close> is not assigned: it keeps the speed, and
  the image, that object had before the transition.
\<close>

theorem level_transition_hand_off:
  assumes "transition_fires g"
  shows "bird (Game_check_level_transition g) = incoming_bird g \<and>
         cd_bird (collision_detector (Game_check_level_transition g)) = incoming_bird g \<and>
         bird_x (active_bird (Game_check_level_transition g)) = bird_x (active_bird g) \<and>
         bird_y (active_bird (Game_check_level_transition g)) = bird_y (active_bird g) \<and>
         rect (active_bird (Game_check_level_transition g)) = rect (active_bird g) \<and>
         active_box (Game_check_level_transition g) = active_box g \<and>
         lives (active_bird (Game_check_level_transition g)) = lives (active_bird g) \<and>
         speed (active_bird (Game_check_level_transition g)) =
           speed (birds (runtime g) (incoming_bird g)) \<and>
         image (active_bird (Game_check_level_transition g)) =
           image (birds (runtime g) (incoming_bird g))"
proof -
  have flags:
    "\<And>a b c d e. active_bird (g\<lparr>level_2_reached := a, level_3_reached := b,
        level_4_reached := c, background_color := d, ground_image := e\<rparr>) = active_bird g"
    "\<And>a b c d e. active_bird (g\<lparr>level_3_reached := a, level_2_reached := b,
        level_4_reached := c, background_color := d, ground_image := e\<rparr>) = active_bird g"
    "\<And>a b c d e. active_bird (g\<lparr>level_4_reached := a, level_2_reached := b,
        level_3_reached := c, background_color := d, ground_image := e\<rparr>) = active_bird g"
    "\<And>a b c d e. active_box (g\<lparr>level_2_reached := a, level_3_reached := b,
        level_4_reached := c, background_color := d, ground_image := e\<rparr>) = active_box g"
    "\<And>a b c d e. active_box (g\<lparr>level_3_reached := a, level_2_reached := b,
        level_4_reached := c, background_color := d, ground_image := e\<rparr>) = active_box g"
    "\<And>a b c d e. active_box (g\<lparr>level_4_reached := a, level_2_reached := b,
        level_3_reached := c, background_color := d, ground_image := e\<rparr>) = active_box g"
    by (simp_all add: active_bird_def active_box_def)
  from assms show ?thesis
    unfolding transition_fires_def Game_check_level_transition_def incoming_bird_def
    by (auto simp: change_bird_handoff change_bird_box change_bird_detector change_bird_new
        flags)
qed

lemma with_score_fields:
  "bird (with_score n g) = bird g" "bird1 (with_score n g) = bird1 g"
  "bird2 (with_score n g) = bird2 g" "bird3 (with_score n g) = bird3 g"
  "runtime (with_score n g) = runtime g"
  "level_2_reached (with_score n g) = level_2_reached g"
  "level_3_reached (with_score n g) = level_3_reached g"
  "level_4_reached (with_score n g) = level_4_reached g"
  "current_score (score_system (with_score n g)) = n"
  by (simp_all add: with_score_def)

lemma fires_at_300: "transition_fires (with_score 300 game_flapping)"
  by (simp add: transition_fires_def current_lvl_def with_score_fields game_flapping_simps)

lemma game_flapping_green_box:
  "rects (runtime game_flapping) 2 = \<lparr>rect_x = 940, rect_y = 570, rect_w = 60, rect_h = 60\<rparr>"
  by (simp add: game_flapping_def Game_process_input_def Game_check_level_transition_def
      change_bird_def current_lvl_def Game_init_def Game_setup_def Bird_init_def event_get_def
      get_ticks_def random_randint_def runtime0_def Bird_flap_def heap_simps Let_def
      length'_def width_def CollisionDetector_init_def Score_init_def
      Rect_set_center_def Rect_center_def)

lemma game_handoff_fields:
  "bird game_handoff = Suc 0" "bird1 game_handoff = Suc 0" "bird2 game_handoff = 2"
  "bird3 game_handoff = 3"
  "\<not> level_2_reached game_handoff" "\<not> level_3_reached game_handoff"
  "level_4_reached game_handoff"
  "current_score (score_system game_handoff) = 300"
  "birds (runtime game_handoff) (Suc 0) =
     \<lparr>bird_x = 970, bird_y = PyInt 400, image = ''/home/miruna/ia4/blue_bird.png'', rect = 0,
      speed = PyInt (- 9), lives = 2\<rparr>"
  "birds (runtime game_handoff) 2 =
     \<lparr>bird_x = 970, bird_y = PyInt 600, image = ''/home/miruna/ia4/green_bird.png'', rect = 2,
      speed = PyInt 0, lives = 3\<rparr>"
  "rects (runtime game_handoff) 0 = \<lparr>rect_x = 940, rect_y = 370, rect_w = 60, rect_h = 60\<rparr>"
  "rects (runtime game_handoff) 2 = \<lparr>rect_x = 940, rect_y = 570, rect_w = 60, rect_h = 60\<rparr>"
  by (simp_all add: game_handoff_def with_bird_y_def with_score_def Bird_reduce_life_def
      heap_simps Rect_set_center_def game_flapping_simps game_flapping_green_box)

lemma fires_at_handoff: "transition_fires game_handoff"
  by (simp add: transition_fires_def current_lvl_def game_handoff_fields)

text \<open>
  At score 300 the blue bird (reference 1: height 400, two lives, rectangle 0 at
  y = 370, speed -9) hands over to the green bird (reference 2), which until then stood
  at height 600 with three lives and its own rectangle 2 at y = 570. After the
  transition the green bird is current and is the detector's bird; it stands at height
  400 with two lives on rectangle 0, at its own speed 0.
\<close>

theorem level_transition_hand_off_witness:
  "transition_fires game_handoff \<and>
   bird game_handoff = 1 \<and> incoming_bird game_handoff = 2 \<and>
   bird_y (birds (runtime game_handoff) 2) = PyInt 600 \<and>
   lives (birds (runtime game_handoff) 2) = 3 \<and>
   rect (birds (runtime game_handoff) 2) = 2 \<and>
   rects (runtime game_handoff) 2 = \<lparr>rect_x = 940, rect_y = 570, rect_w = 60, rect_h = 60\<rparr> \<and>
   bird (Game_check_level_transition game_handoff) = 2 \<and>
   cd_bird (collision_detector (Game_check_level_transition game_handoff)) = 2 \<and>
   bird_x (active_bird (Game_check_level_transition game_handoff)) = 970 \<and>
   bird_y (active_bird (Game_check_level_transition game_handoff)) = PyInt 400 \<and>
   lives (active_bird (Game_check_level_transition game_handoff)) = 2 \<and>
   rect (active_bird (Game_check_level_transition game_handoff)) = 0 \<and>
   active_box (Game_check_level_transition game_handoff) =
     \<lparr>rect_x = 940, rect_y = 370, rect_w = 60, rect_h = 60\<rparr> \<and>
   speed (active_bird (Game_check_level_transition game_handoff)) = PyInt 0 \<and>
   image (active_bird (Game_check_level_transition game_handoff)) =
     ''/home/miruna/ia4/green_bird.png''"
proof -
  have inc: "incoming_bird game_handoff = 2"
    by (simp add: incoming_bird_def current_lvl_def game_handoff_fields)
  have old: "active_bird game_handoff =
      \<lparr>bird_x = 970, bird_y = PyInt 400, image = ''/home/miruna/ia4/blue_bird.png'', rect = 0,
       speed = PyInt (- 9), lives = 2\<rparr>"
    "active_box game_handoff = \<lparr>rect_x = 940, rect_y = 370, rect_w = 60, rect_h = 60\<rparr>"
    by (simp_all add: active_bird_def active_box_def game_handoff_fields)
  from level_transition_hand_off [OF fires_at_handoff] fires_at_handoff inc old
  show ?thesis by (simp add: game_handoff_fields)
qed

text \<open>
  The claim as stated fails for the vertical velocity: the outgoing bird moves at -9,
  the bird that takes over stands at its own speed 0.
\<close>

theorem level_transition_velocity_counterexample:
  "transition_fires (with_score 300 game_flapping) \<and>
   speed (active_bird (with_score 300 game_flapping)) = PyInt (- 9) \<and>
   speed (active_bird (Game_check_level_transition (with_score 300 game_flapping))) = PyInt 0 \<and>
   speed (active_bird (Game_check_level_transition (with_score 300 game_flapping))) \<noteq>
     speed (active_bird (with_score 300 game_flapping))"
  by (simp add: fires_at_300 active_bird_def Game_check_level_transition_def current_lvl_def
      with_score_fields game_flapping_simps change_bird_def heap_simps Let_def)

section \<open>Score per frame\<close>

lemma check_collisions_score:
  "current_score (score_system (Game_check_collisions g)) =
     current_score (score_system g) + (if collision_now g then 0 else 1)"
  by (simp add: Game_check_collisions_def collision_now_def Let_def Score_increment_def
      Game_reset_bird_and_pipes_def)

lemma process_input_event_score:
  "score_system (process_input_event e g) = score_system g"
  by (cases e) (simp_all add: Let_def)

lemma fold_process_input_event_score:
  "score_system (fold process_input_event es g) = score_system g"
  by (induction es arbitrary: g) (simp_all add: process_input_event_score)

lemma process_input_score: "score_system (Game_process_input g) = score_system g"
  by (simp add: Game_process_input_def split_def Let_def fold_process_input_event_score)

lemma check_level_transition_score:
  "score_system (Game_check_level_transition g) = score_system g"
  by (simp add: Game_check_level_transition_def change_bird_def Let_def)

lemma Game_setup_not_started: "\<not> game_started (Game_setup sc rt)"
  by (simp add: Game_setup_def split_def Let_def)

text \<open>
  In the pause menu only a new game changes the score, and a new game is not started:
  whenever the game is started after the menu, the score is the one before it.
\<close>

lemma pause_menu_event_started_score:
  assumes "pause_menu_event e g = Inr g'" and "game_started g \<longrightarrow> score_system g = sc"
  shows "game_started g' \<longrightarrow> score_system g' = sc"
proof (cases e)
  case QUIT
  with assms show ?thesis by auto
next
  case (KEYDOWN k)
  with assms show ?thesis
    by (auto simp: Game_start_new_game_def Game_setup_not_started split: if_splits)
next
  case OtherEvent
  with assms show ?thesis by auto
qed

lemma pause_menu_events_started_score:
  "pause_menu_events es g = Inr g' \<Longrightarrow> (game_started g \<longrightarrow> score_system g = sc)
     \<Longrightarrow> game_started g' \<longrightarrow> score_system g' = sc"
proof (induction es arbitrary: g)
  case Nil
  then show ?case by simp
next
  case (Cons e es)
  from Cons.prems(1) obtain g1 where e: "pause_menu_event e g = Inr g1"
    and es: "pause_menu_events es g1 = Inr g'"
    by (auto split: sum.splits)
  from pause_menu_event_started_score[OF e Cons.prems(2)] Cons.IH[OF es]
  show ?case by blast
qed

lemma running_loop_head_score:
  assumes "running_loop_head g = Inr g3" and "game_started g3"
  shows "score_system g3 = score_system g"
proof -
  let ?g2 = "Game_process_input (Game_check_level_transition g)"
  have g2: "score_system ?g2 = score_system g"
    by (simp add: process_input_score check_level_transition_score)
  show ?thesis
  proof (cases "paused ?g2")
    case False
    with assms(1) have "g3 = ?g2" by (simp add: running_loop_head_def Let_def)
    with g2 show ?thesis by simp
  next
    case True
    with assms(1) have "pause_menu_events (fst (event_get (runtime ?g2)))
        (?g2\<lparr>runtime := snd (event_get (runtime ?g2))\<rparr>) = Inr g3"
      by (simp add: running_loop_head_def Let_def split_def)
    from pause_menu_events_started_score[OF this, of "score_system g"] g2 assms(2)
    show ?thesis by simp
  qed
qed

lemma generate_pipes_score: "score_system (Game_generate_pipes g) = score_system g"
  by (simp add: Game_generate_pipes_def split_def Let_def)

lemma move_pipes_score: "score_system (Game_move_pipes g) = score_system g"
  by (simp add: Game_move_pipes_def Let_def)

lemma running_loop_active_score:
  "current_score (score_system (fst (running_loop_active fl name (g, db)))) =
     current_score (score_system g) + (if collision_now (before_check g) then 0 else 1)"
  by (simp add: running_loop_active_def Let_def before_check_def check_collisions_score
      generate_pipes_score move_pipes_score)

text \<open>
  C5. Take an iteration of the loop that reaches line 955 in a state \<open>g3\<close> that is started
  and not paused. The iteration completes, and the current score at its end is the score
  at its beginning plus 1 when \<open>detect_collision\<close>, called by \<open>check_collisions\<close> after
  the pipes were generated and moved, returns false, and is unchanged when it returns
  true.
\<close>

theorem active_tick_score:
  assumes "running_loop_head g = Inr g3" and "game_started g3" and "\<not> paused g3"
  shows "\<exists>g' db'. running_loop_body fl name (g, db) = Inr (g', db') \<and>
           current_score (score_system g') =
             current_score (score_system g) + (if collision_now (before_check g3) then 0 else 1)"
proof -
  obtain g' db' where r: "running_loop_active fl name (g3, db) = (g', db')"
    by (cases "running_loop_active fl name (g3, db)")
  from assms have "running_loop_body fl name (g, db) = Inr (g', db')"
    by (simp add: running_loop_body_def r)
  moreover from running_loop_active_score[of fl name g3 db] r
    running_loop_head_score[OF assms(1,2)]
  have "current_score (score_system g') =
          current_score (score_system g) + (if collision_now (before_check g3) then 0 else 1)"
    by simp
  ultimately show ?thesis by blast
qed

lemma head_of_first_frame: "running_loop_head (Game_init runtime0) = Inr game_flapping"
  using game_flapping_fields(11)
  by (simp add: running_loop_head_def Let_def game_flapping_def [symmetric])

lemma before_check_game_flapping:
  "pipes (before_check game_flapping) = Suc 0"
  "collision_detector (before_check game_flapping) = collision_detector game_flapping"
  "birds (runtime (before_check game_flapping)) = birds (runtime game_flapping)"
  "rects (runtime (before_check game_flapping)) = rects (runtime game_flapping)"
  "pipe_lists (runtime (before_check game_flapping)) (Suc 0) =
     [\<lparr>pipe_width = 100, pipe_height = 599, pipe_x = 1933,
       pipe_top = \<lparr>rect_x = 1933, rect_y = 0, rect_w = 100, rect_h = 599\<rparr>,
       pipe_bottom = \<lparr>rect_x = 1933, rect_y = 819, rect_w = 100, rect_h = 1121\<rparr>\<rparr>]"
  by (simp_all add: before_check_def Game_move_pipes_def Game_generate_pipes_def get_ticks_def
      Pipe_init_def Pipe_generate_pipes_def Pipe_move_def Pipe_is_off_screen_def
      next_frequency_def random_randint_def heap_simps Let_def game_flapping_simps
      length'_def PIPE_WIDTH_def PIPE_HEIGHT_def PIPE_GAP_def PIPE_SPEED_def)

lemma no_collision_game_flapping: "\<not> collision_now (before_check game_flapping)"
  by (simp add: collision_now_def detect_collision_iff detector_pipes_def detector_box_def
      detector_bird_def hits_pipe_def colliderect_def before_check_game_flapping
      game_flapping_simps)

text \<open>
  The first frame of a new game with SPACE pressed: the bird starts, nothing is hit, and
  the score goes from 0 to 1. The same frame with the bird three pixels above the top
  (the state at line 955 is \<open>game_hit\<close>) is covered by the witness of the soft reset.
\<close>

theorem active_tick_score_witness:
  "running_loop_head (Game_init runtime0) = Inr game_flapping \<and>
   game_started game_flapping \<and> \<not> paused game_flapping \<and>
   current_score (score_system (Game_init runtime0)) = 0 \<and>
   (\<exists>g' db'. running_loop_body exact_floats ''alice'' (Game_init runtime0, db_alice) = Inr (g', db') \<and>
      current_score (score_system g') = 1)"
proof -
  have s0: "current_score (score_system (Game_init runtime0)) = 0"
    by (simp add: Game_init_def Game_setup_def split_def Let_def Score_init_def)
  from active_tick_score [OF head_of_first_frame game_flapping_fields(10) game_flapping_fields(11),
      of exact_floats "''alice''" db_alice]
    no_collision_game_flapping s0 head_of_first_frame game_flapping_fields(10,11)
  show ?thesis by simp
qed

section \<open>Soft reset\<close>

lemma game_hit_fields:
  "bird game_hit = Suc 0" "pipes game_hit = 0"
  "collision_detector game_hit = collision_detector game_flapping"
  "screen_width game_hit = 1940" "screen_height game_hit = 1200"
  "running game_hit" "game_started game_hit" "\<not> paused game_hit"
  "score_system game_hit = \<lparr>current_score = 0, high_score = 0\<rparr>"
  "last_pipe_time game_hit = 0" "next_pipe_frequency game_hit = 3500"
  "birds (runtime game_hit) (Suc 0) =
     \<lparr>bird_x = 970, bird_y = PyInt (- 3), image = ''/home/miruna/ia4/blue_bird.png'', rect = 0,
      speed = PyInt (- 9), lives = 3\<rparr>"
  "rects (runtime game_hit) 0 = \<lparr>rect_x = 940, rect_y = - 33, rect_w = 60, rect_h = 60\<rparr>"
  "pipe_lists (runtime game_hit) = pipe_lists (runtime game_flapping)"
  "next_list (runtime game_hit) = Suc 0"
  "rand_source (runtime game_hit) = (\<lambda>_. 1000)" "rand_pos (runtime game_hit) = Suc 0"
  "ticks_source (runtime game_hit) = (\<lambda>n. 5000 * int n)" "ticks_pos (runtime game_hit) = Suc 0"
  "event_source (runtime game_hit) = (\<lambda>n. if n = Suc 0 then [] else [KEYDOWN K_SPACE])"
  "event_pos (runtime game_hit) = Suc 0"
  "level_4_reached game_hit" "\<not> level_2_reached game_hit" "\<not> level_3_reached game_hit"
  "bird1 game_hit = Suc 0"
  by (simp_all add: game_hit_def with_bird_y_def heap_simps game_flapping_simps
      Rect_set_center_def)




section \<open>The account store\<close>

text \<open>
  C9. \<open>get_high_score\<close> returns 0 for a user name with no entry, and \<open>update_high_score\<close>
  then changes nothing. For a user with an entry, a score above the stored high score is
  stored and the file is written from the updated table (other users untouched); a score
  that is not above it leaves the database, file included, as it was.
\<close>

theorem UserDatabase_high_score_contract:
  "(users db name = None \<longrightarrow>
      UserDatabase_get_high_score name db = 0 \<and>
      UserDatabase_update_high_score name sc db = db) \<and>
   (\<forall>u. users db name = Some u \<and> high_score (score u) < sc \<longrightarrow>
      UserDatabase_get_high_score name (UserDatabase_update_high_score name sc db) = sc \<and>
      (\<exists>f. file_content (UserDatabase_update_high_score name sc db) = Some f \<and>
           f = (\<lambda>n. map_option User_to_dict
                       (users (UserDatabase_update_high_score name sc db) n)) \<and>
           map_option dict_high_score (f name) = Some sc) \<and>
      (\<forall>n. n \<noteq> name \<longrightarrow>
           users (UserDatabase_update_high_score name sc db) n = users db n)) \<and>
   (\<forall>u. users db name = Some u \<and> sc \<le> high_score (score u) \<longrightarrow>
      UserDatabase_get_high_score name db = high_score (score u) \<and>
      UserDatabase_update_high_score name sc db = db)"
  by (auto simp add: UserDatabase_get_high_score_def UserDatabase_update_high_score_def
      UserDatabase_save_users_def User_to_dict_def)

lemma db_alice_fields:
  "users db_alice ''alice'' = Some \<lparr>username = ''alice'', password = ''pw'',
      score = \<lparr>current_score = 0, high_score = 0\<rparr>\<rparr>"
  "users db_alice ''bob'' = None"
  by (simp_all add: db_alice_def UserDatabase_create_account_def UserDatabase_save_users_def
      User_init_def Score_init_def)

text \<open>
  The scenario of the spec: no entry gives 0; a run that ends at 150 stores 150 for
  alice, in the file too; a later run that ends at 90 leaves 150.
\<close>

theorem UserDatabase_high_score_contract_witness:
  "UserDatabase_get_high_score ''bob'' db_alice = 0 \<and>
   UserDatabase_update_high_score ''bob'' 150 db_alice = db_alice \<and>
   UserDatabase_get_high_score ''alice'' (UserDatabase_update_high_score ''alice'' 150 db_alice)
     = 150 \<and>
   (\<exists>f. file_content (UserDatabase_update_high_score ''alice'' 150 db_alice) = Some f \<and>
        map_option dict_high_score (f ''alice'') = Some 150) \<and>
   UserDatabase_update_high_score ''alice'' 90
       (UserDatabase_update_high_score ''alice'' 150 db_alice) =
     UserDatabase_update_high_score ''alice'' 150 db_alice"
proof -
  let ?db = "UserDatabase_update_high_score ''alice'' 150 db_alice"
  have u: "users ?db ''alice'' = Some \<lparr>username = ''alice'', password = ''pw'',
      score = \<lparr>current_score = 0, high_score = 150\<rparr>\<rparr>"
    by (simp add: UserDatabase_update_high_score_def UserDatabase_save_users_def db_alice_fields)
  from UserDatabase_high_score_contract [of db_alice "''bob''" 150]
    UserDatabase_high_score_contract [of db_alice "''alice''" 150]
    UserDatabase_high_score_contract [of ?db "''alice''" 90]
    db_alice_fields u
  show ?thesis by auto
qed

section \<open>The rectangle after a soft reset\<close>

lemma reset_keeps_rect:
  "rects (runtime (Game_reset_bird_and_pipes g)) = rects (runtime g) \<and>
   rect (active_bird (Game_reset_bird_and_pipes g)) = rect (active_bird g) \<and>
   tested_box (Game_reset_bird_and_pipes g) = tested_box g \<and>
   bird_x (active_bird (Game_reset_bird_and_pipes g)) = screen_width g div 2 \<and>
   bird_y (active_bird (Game_reset_bird_and_pipes g)) = PyInt (screen_height g div 2) \<and>
   speed (active_bird (Game_reset_bird_and_pipes g)) = PyInt 0"
  by (simp add: Game_reset_bird_and_pipes_def active_bird_def tested_box_def detector_box_def
      detector_bird_def Let_def heap_simps)

text \<open>What generating and moving the pipes leaves alone.\<close>

lemma before_check_frame:
  "screen_width (before_check g) = screen_width g"
  "screen_height (before_check g) = screen_height g"
  "bird (before_check g) = bird g"
  "cd_bird (collision_detector (before_check g)) = cd_bird (collision_detector g)"
  "collision_detector (before_check g) = collision_detector g"
  "birds (runtime (before_check g)) = birds (runtime g)"
  "rects (runtime (before_check g)) = rects (runtime g)"
  "bird1 (before_check g) = bird1 g"
  "running (before_check g) = running g"
  "game_started (before_check g) = game_started g"
  "paused (before_check g) = paused g"
  "score_system (before_check g) = score_system g"
  "level_2_reached (before_check g) = level_2_reached g"
  "level_3_reached (before_check g) = level_3_reached g"
  "level_4_reached (before_check g) = level_4_reached g"
  "rand_source (runtime (before_check g)) = rand_source (runtime g)"
  "ticks_source (runtime (before_check g)) = ticks_source (runtime g)"
  "event_source (runtime (before_check g)) = event_source (runtime g)"
  "event_pos (runtime (before_check g)) = event_pos (runtime g)"
  by (simp_all add: before_check_def Game_move_pipes_def Game_generate_pipes_def split_def
      Pipe_init_def next_frequency_def random_randint_def get_ticks_def heap_simps Let_def)

lemmas box_defs =
  box_on_centre_def tested_box_def detector_box_def detector_bird_def active_bird_def

text \<open>The iteration of the reset: \<open>apply_gravity\<close> follows \<open>check_collisions\<close>.\<close>

lemma gravity_after_reset:
  assumes "cd_bird (collision_detector g) = bird g"
    and "collision_now g" and "lives (active_bird g) - 1 \<noteq> 0"
  shows "box_on_centre ((Game_check_collisions g)
            \<lparr>runtime := Bird_apply_gravity fl (bird (Game_check_collisions g))
                          (runtime (Game_check_collisions g))\<rparr>) \<and>
         \<not> game_started ((Game_check_collisions g)
            \<lparr>runtime := Bird_apply_gravity fl (bird (Game_check_collisions g))
                          (runtime (Game_check_collisions g))\<rparr>)"
  using assms
  by (simp add: Game_check_collisions_def collision_now_def box_defs Let_def
      Bird_reduce_life_def Game_reset_bird_and_pipes_def Bird_apply_gravity_def heap_simps
      Rect_center_set_center)

lemma reset_iteration_box:
  assumes "cd_bird (collision_detector g) = bird g"
    and "collision_now (before_check g)"
    and "lives (active_bird (before_check g)) - 1 \<noteq> 0"
  shows "box_on_centre (fst (running_loop_active fl name (g, db))) \<and>
         \<not> game_started (fst (running_loop_active fl name (g, db)))"
proof -
  from assms(1) have "cd_bird (collision_detector (before_check g)) = bird (before_check g)"
    by (simp add: before_check_frame)
  from gravity_after_reset [OF this assms(2,3), of fl] show ?thesis
    by (auto simp add: running_loop_active_def Let_def before_check_def [symmetric] box_defs
        before_check_frame)
qed

text \<open>
  Lines 923-953 keep the rectangle on the bird: a level change hands the position and
  the rectangle object to the new bird and points the detector at it, SPACE changes
  only the speed, and a new game makes new birds with centred rectangles.
\<close>

lemma check_level_transition_box:
  "box_on_centre g \<Longrightarrow> box_on_centre (Game_check_level_transition g)"
  by (auto simp add: Game_check_level_transition_def change_bird_def box_defs Let_def
      heap_simps Rect_set_own_center)

lemma process_input_event_box:
  "box_on_centre g \<Longrightarrow> box_on_centre (process_input_event e g)"
  by (cases e) (auto simp add: box_defs Bird_flap_def heap_simps Let_def)

lemma fold_process_input_event_box:
  "box_on_centre g \<Longrightarrow> box_on_centre (fold process_input_event es g)"
  by (induction es arbitrary: g) (simp_all add: process_input_event_box)

lemma process_input_box: "box_on_centre g \<Longrightarrow> box_on_centre (Game_process_input g)"
proof -
  assume "box_on_centre g"
  then have "box_on_centre (g\<lparr>runtime := snd (event_get (runtime g))\<rparr>)"
    by (auto simp add: box_defs event_get_def)
  then show ?thesis
    by (simp add: Game_process_input_def split_def Let_def fold_process_input_event_box)
qed

lemma Game_setup_box: "box_on_centre (Game_setup sc rt)"
  by (simp add: Game_setup_def Bird_init_def get_ticks_def random_randint_def split_def Let_def
      CollisionDetector_init_def box_defs Rect_center_def Rect_set_center_def)

lemma pause_menu_event_box:
  assumes "pause_menu_event e g = Inr g'" and "box_on_centre g"
  shows "box_on_centre g'"
proof (cases e)
  case QUIT
  with assms show ?thesis by (auto simp: box_defs)
next
  case (KEYDOWN k)
  show ?thesis
  proof (cases "k = K_n")
    case True
    with KEYDOWN assms(1) have "g' = Game_start_new_game g" by simp
    then show ?thesis by (simp add: Game_start_new_game_def Game_setup_box)
  next
    case False
    with KEYDOWN assms show ?thesis
      by (auto simp: box_defs split: if_splits)
  qed
next
  case OtherEvent
  with assms show ?thesis by auto
qed

lemma pause_menu_events_box:
  "pause_menu_events es g = Inr g' \<Longrightarrow> box_on_centre g \<Longrightarrow> box_on_centre g'"
proof (induction es arbitrary: g)
  case Nil
  then show ?case by simp
next
  case (Cons e es)
  from Cons.prems(1) obtain g1 where e: "pause_menu_event e g = Inr g1"
    and es: "pause_menu_events es g1 = Inr g'"
    by (auto split: sum.splits)
  from Cons.IH [OF es pause_menu_event_box [OF e Cons.prems(2)]] show ?case .
qed

lemma running_loop_head_box:
  assumes "running_loop_head g = Inr h" and "box_on_centre g"
  shows "box_on_centre h"
proof -
  let ?g2 = "Game_process_input (Game_check_level_transition g)"
  have g2: "box_on_centre ?g2"
    using assms(2) by (simp add: process_input_box check_level_transition_box)
  show ?thesis
  proof (cases "paused ?g2")
    case False
    with assms(1) have "h = ?g2" by (simp add: running_loop_head_def Let_def)
    with g2 show ?thesis by simp
  next
    case True
    with assms(1) have m: "pause_menu_events (fst (event_get (runtime ?g2)))
        (?g2\<lparr>runtime := snd (event_get (runtime ?g2))\<rparr>) = Inr h"
      by (simp add: running_loop_head_def Let_def split_def)
    from g2 have "box_on_centre (?g2\<lparr>runtime := snd (event_get (runtime ?g2))\<rparr>)"
      by (auto simp add: box_defs event_get_def)
    from pause_menu_events_box [OF m this] show ?thesis .
  qed
qed

lemma idle_iterations_box:
  "rtranclp idle_iteration g h \<Longrightarrow> box_on_centre g \<Longrightarrow> box_on_centre h"
proof (induction rule: rtranclp_induct)
  case base
  then show ?case .
next
  case (step h1 h2)
  then show ?case
    by (auto simp: idle_iteration_def dest: running_loop_head_box)
qed

lemma before_check_box: "box_on_centre h \<Longrightarrow> box_on_centre (before_check h)"
  by (auto simp add: box_defs before_check_frame)

text \<open>An idle iteration is an iteration of the loop, and it leaves the database alone.\<close>

lemma idle_iteration_body:
  "idle_iteration g h \<Longrightarrow> running_loop_body fl name (g, db) = Inr (h, db)"
  by (auto simp: idle_iteration_def running_loop_body_def)

text \<open>
  C10, as the code has it. \<open>reset_bird_and_pipes\<close> sets \<open>x\<close>, \<open>y\<close> and \<open>speed\<close> of the bird
  and leaves every rectangle as it was, so the rectangle that \<open>detect_collision\<close> reads is
  still the one from before the reset. But \<open>running_loop\<close> calls \<open>apply_gravity\<close> right
  after \<open>check_collisions\<close> in the same iteration. When that iteration's check finds a
  collision and a life remains, the iteration ends unstarted, with the bird at the screen
  centre and the tested rectangle centred there. After any number of iterations in
  which the active part does not run, the first iteration whose active part runs again
  makes its collision check, the first after the reset, on a rectangle centred on the
  bird at the screen centre.
\<close>

theorem reset_rect_recentred_before_next_check:
  "rects (runtime (Game_reset_bird_and_pipes g)) = rects (runtime g) \<and>
   rect (active_bird (Game_reset_bird_and_pipes g)) = rect (active_bird g) \<and>
   tested_box (Game_reset_bird_and_pipes g) = tested_box g \<and>
   bird_x (active_bird (Game_reset_bird_and_pipes g)) = screen_width g div 2 \<and>
   bird_y (active_bird (Game_reset_bird_and_pipes g)) = PyInt (screen_height g div 2) \<and>
   speed (active_bird (Game_reset_bird_and_pipes g)) = PyInt 0 \<and>
   (cd_bird (collision_detector g) = bird g \<and> collision_now (before_check g) \<and>
    lives (active_bird (before_check g)) - 1 \<noteq> 0 \<longrightarrow>
      \<not> game_started (fst (running_loop_active fl name (g, db))) \<and>
      box_on_centre (fst (running_loop_active fl name (g, db))) \<and>
      (\<forall>h h'. rtranclp idle_iteration (fst (running_loop_active fl name (g, db))) h \<and>
               running_loop_head h = Inr h' \<and> game_started h' \<and> \<not> paused h' \<longrightarrow>
               box_on_centre (before_check h')))"
proof -
  have "\<not> game_started (fst (running_loop_active fl name (g, db))) \<and>
      box_on_centre (fst (running_loop_active fl name (g, db))) \<and>
      (\<forall>h h'. rtranclp idle_iteration (fst (running_loop_active fl name (g, db))) h \<and>
               running_loop_head h = Inr h' \<and> game_started h' \<and> \<not> paused h' \<longrightarrow>
               box_on_centre (before_check h'))"
    if c: "cd_bird (collision_detector g) = bird g" "collision_now (before_check g)"
      "lives (active_bird (before_check g)) - 1 \<noteq> 0"
  proof -
    from reset_iteration_box [OF c, of fl name db]
    have e: "box_on_centre (fst (running_loop_active fl name (g, db)))"
      and n: "\<not> game_started (fst (running_loop_active fl name (g, db)))"
      by simp_all
    have "box_on_centre (before_check h')"
      if "rtranclp idle_iteration (fst (running_loop_active fl name (g, db))) h"
        and "running_loop_head h = Inr h'" for h h'
      using that e
      by (blast intro: before_check_box running_loop_head_box idle_iterations_box)
    with e n show ?thesis by blast
  qed
  with reset_keeps_rect [of g] show ?thesis by blast
qed

lemmas pipe_eval =
  before_check_def Game_move_pipes_def Game_generate_pipes_def get_ticks_def
  Pipe_init_def Pipe_generate_pipes_def Pipe_move_def Pipe_is_off_screen_def
  next_frequency_def random_randint_def heap_simps Let_def
  length'_def PIPE_WIDTH_def PIPE_HEIGHT_def PIPE_GAP_def PIPE_SPEED_def

text \<open>The frame of the hit, stage by stage: the state at the collision check.\<close>

lemma before_check_game_hit:
  "pipes (before_check game_hit) = Suc 0"
  "last_pipe_time (before_check game_hit) = 10000"
  "next_pipe_frequency (before_check game_hit) = 3500"
  "next_list (runtime (before_check game_hit)) = 2"
  "ticks_pos (runtime (before_check game_hit)) = 3"
  by (simp_all add: pipe_eval game_hit_fields game_flapping_simps)

lemma collision_before_check_game_hit: "collision_now (before_check game_hit)"
  by (simp add: collision_now_def detect_collision_iff detector_bird_def before_check_frame
      game_hit_fields game_flapping_simps)

lemma tested_box_game_hit:
  "tested_box (before_check game_hit) = \<lparr>rect_x = 940, rect_y = - 33, rect_w = 60, rect_h = 60\<rparr>"
  by (simp add: tested_box_def detector_box_def detector_bird_def before_check_frame
      game_hit_fields game_flapping_simps)

lemma running_loop_active_fst:
  "fst (running_loop_active fl name (g, db)) =
     (Game_check_collisions (before_check g))
       \<lparr>runtime := Bird_apply_gravity fl (bird (Game_check_collisions (before_check g)))
                     (runtime (Game_check_collisions (before_check g)))\<rparr>"
  by (simp add: running_loop_active_def before_check_def Let_def)

lemma check_collisions_reset:
  assumes "collision_now g" and "lives (active_bird g) - 1 \<noteq> 0"
  shows "Game_check_collisions g =
           Game_reset_bird_and_pipes
             (g\<lparr>collision_detector := (collision_detector g)\<lparr>cd_pipes := pipes g\<rparr>,
                runtime := Bird_reduce_life (bird g) (runtime g)\<rparr>)"
  using assms
  by (simp add: Game_check_collisions_def collision_now_def active_bird_def Let_def
      Bird_reduce_life_def heap_simps)

text \<open>The state at the end of the frame of the hit.\<close>

lemma game_after_hit_eq:
  "game_after_hit =
     (Game_reset_bird_and_pipes
        ((before_check game_hit)
           \<lparr>collision_detector :=
              (collision_detector (before_check game_hit))\<lparr>cd_pipes := pipes (before_check game_hit)\<rparr>,
            runtime := Bird_reduce_life (bird (before_check game_hit))
                         (runtime (before_check game_hit))\<rparr>))
       \<lparr>runtime := Bird_apply_gravity exact_floats (Suc 0)
          (runtime (Game_reset_bird_and_pipes
             ((before_check game_hit)
                \<lparr>collision_detector :=
                   (collision_detector (before_check game_hit))
                     \<lparr>cd_pipes := pipes (before_check game_hit)\<rparr>,
                 runtime := Bird_reduce_life (bird (before_check game_hit))
                              (runtime (before_check game_hit))\<rparr>)))\<rparr>"
proof -
  have l: "lives (active_bird (before_check game_hit)) - 1 \<noteq> 0"
    by (simp add: active_bird_def before_check_frame game_hit_fields)
  show ?thesis
    unfolding game_after_hit_def running_loop_active_fst
      check_collisions_reset [OF collision_before_check_game_hit l]
    by (simp add: Game_reset_bird_and_pipes_def Let_def before_check_frame game_hit_fields)
qed

lemma game_after_hit_fields:
  "bird game_after_hit = Suc 0" "pipes game_after_hit = Suc 0"
  "cd_bird (collision_detector game_after_hit) = Suc 0"
  "cd_screen_height (collision_detector game_after_hit) = 1200"
  "screen_width game_after_hit = 1940" "screen_height game_after_hit = 1200"
  "running game_after_hit" "\<not> game_started game_after_hit" "\<not> paused game_after_hit"
  "score_system game_after_hit = \<lparr>current_score = 0, high_score = 0\<rparr>"
  "level_4_reached game_after_hit" "\<not> level_2_reached game_after_hit"
  "\<not> level_3_reached game_after_hit"
  "last_pipe_time game_after_hit = 10000" "next_pipe_frequency game_after_hit = 3500"
  "birds (runtime game_after_hit) (Suc 0) =
     \<lparr>bird_x = 970, bird_y = PyInt 600, image = ''/home/miruna/ia4/blue_bird.png'', rect = 0,
      speed = PyFloat (9 / 10), lives = 2\<rparr>"
  "rects (runtime game_after_hit) 0 = \<lparr>rect_x = 940, rect_y = 570, rect_w = 60, rect_h = 60\<rparr>"
  "pipe_lists (runtime game_after_hit) (Suc 0) = []"
  "next_list (runtime game_after_hit) = 2"
  "rand_source (runtime game_after_hit) = (\<lambda>_. 1000)"
  "ticks_source (runtime game_after_hit) = (\<lambda>n. 5000 * int n)"
  "ticks_pos (runtime game_after_hit) = 3"
  "event_source (runtime game_after_hit) = (\<lambda>n. if n = Suc 0 then [] else [KEYDOWN K_SPACE])"
  "event_pos (runtime game_after_hit) = Suc 0"
  unfolding game_after_hit_eq
  by (simp_all add: Game_reset_bird_and_pipes_def Bird_apply_gravity_def Bird_reduce_life_def
      heap_simps Let_def Rect_set_center_def exact_floats_def before_check_frame
      before_check_game_hit game_hit_fields game_flapping_simps)

text \<open>The next frame: no level change, no event, the game stays unstarted.\<close>

lemma no_transition_after_hit: "Game_check_level_transition game_after_hit = game_after_hit"
  by (simp add: Game_check_level_transition_def current_lvl_def game_after_hit_fields)

lemma game_idle_fields:
  "bird game_idle = Suc 0" "pipes game_idle = Suc 0"
  "collision_detector game_idle = collision_detector game_after_hit"
  "screen_width game_idle = 1940" "screen_height game_idle = 1200"
  "\<not> game_started game_idle" "\<not> paused game_idle"
  "score_system game_idle = \<lparr>current_score = 0, high_score = 0\<rparr>"
  "level_4_reached game_idle" "\<not> level_2_reached game_idle" "\<not> level_3_reached game_idle"
  "last_pipe_time game_idle = 10000" "next_pipe_frequency game_idle = 3500"
  "birds (runtime game_idle) = birds (runtime game_after_hit)"
  "rects (runtime game_idle) = rects (runtime game_after_hit)"
  "pipe_lists (runtime game_idle) = pipe_lists (runtime game_after_hit)"
  "next_list (runtime game_idle) = 2"
  "rand_source (runtime game_idle) = (\<lambda>_. 1000)"
  "ticks_source (runtime game_idle) = (\<lambda>n. 5000 * int n)"
  "ticks_pos (runtime game_idle) = 3"
  "event_source (runtime game_idle) = (\<lambda>n. if n = Suc 0 then [] else [KEYDOWN K_SPACE])"
  "event_pos (runtime game_idle) = 2"
  unfolding game_idle_def no_transition_after_hit
  by (simp_all add: Game_process_input_def event_get_def Let_def game_after_hit_fields)

lemma idle_after_hit: "idle_iteration game_after_hit game_idle"
  using game_idle_fields(6,7)
  by (simp add: idle_iteration_def running_loop_head_def Let_def game_idle_def [symmetric])

text \<open>The frame after that: no level change, SPACE starts the game again and flaps.\<close>

lemma no_transition_idle: "Game_check_level_transition game_idle = game_idle"
  by (simp add: Game_check_level_transition_def current_lvl_def game_idle_fields)

lemma game_next_fields:
  "bird game_next = Suc 0" "pipes game_next = Suc 0"
  "collision_detector game_next = collision_detector game_after_hit"
  "screen_width game_next = 1940" "screen_height game_next = 1200"
  "game_started game_next" "\<not> paused game_next"
  "last_pipe_time game_next = 10000" "next_pipe_frequency game_next = 3500"
  "birds (runtime game_next) (Suc 0) =
     \<lparr>bird_x = 970, bird_y = PyInt 600, image = ''/home/miruna/ia4/blue_bird.png'', rect = 0,
      speed = PyInt (- 9), lives = 2\<rparr>"
  "rects (runtime game_next) 0 = \<lparr>rect_x = 940, rect_y = 570, rect_w = 60, rect_h = 60\<rparr>"
  "pipe_lists (runtime game_next) (Suc 0) = []"
  "next_list (runtime game_next) = 2"
  "rand_source (runtime game_next) = (\<lambda>_. 1000)"
  "ticks_source (runtime game_next) = (\<lambda>n. 5000 * int n)"
  "ticks_pos (runtime game_next) = 3"
  unfolding game_next_def no_transition_idle
  by (simp_all add: Game_process_input_def event_get_def Bird_flap_def heap_simps Let_def
      game_idle_fields game_after_hit_fields)

lemma head_idle: "running_loop_head game_idle = Inr game_next"
  using game_next_fields(7)
  by (simp add: running_loop_head_def Let_def game_next_def [symmetric])

lemma before_check_game_next:
  "pipes (before_check game_next) = 2"
  "pipe_lists (runtime (before_check game_next)) 2 =
     [\<lparr>pipe_width = 100, pipe_height = 599, pipe_x = 1933,
       pipe_top = \<lparr>rect_x = 1933, rect_y = 0, rect_w = 100, rect_h = 599\<rparr>,
       pipe_bottom = \<lparr>rect_x = 1933, rect_y = 819, rect_w = 100, rect_h = 1121\<rparr>\<rparr>]"
  by (simp_all add: pipe_eval game_next_fields)

text \<open>
  The bird three pixels above the top: the check finds the collision, two lives remain,
  and the frame ends unstarted with the tested rectangle centred on (970, 600). One
  frame passes without an event. In the frame after it SPACE is pressed, and its
  collision check reads a rectangle centred on (970, 600), where the bird is.
\<close>

theorem reset_rect_recentred_before_next_check_witness:
  "cd_bird (collision_detector game_hit) = bird game_hit \<and>
   collision_now (before_check game_hit) \<and>
   lives (active_bird (before_check game_hit)) = 3 \<and>
   \<not> game_started game_after_hit \<and>
   Rect_center (tested_box game_after_hit) = (970, 600) \<and>
   idle_iteration game_after_hit game_idle \<and>
   running_loop_head game_idle = Inr game_next \<and>
   game_started game_next \<and> \<not> paused game_next \<and>
   Rect_center (tested_box (before_check game_next)) = (970, 600) \<and>
   bird_x (active_bird (before_check game_next)) = 970 \<and>
   bird_y (active_bird (before_check game_next)) = PyInt 600"
proof -
  have c: "cd_bird (collision_detector game_hit) = bird game_hit"
    by (simp add: game_hit_fields game_flapping_simps)
  have l: "lives (active_bird (before_check game_hit)) = 3"
    by (simp add: active_bird_def before_check_frame game_hit_fields)
  have i: "rtranclp idle_iteration game_after_hit game_idle"
    using idle_after_hit by (rule r_into_rtranclp)
  from c collision_before_check_game_hit l
  have pre: "cd_bird (collision_detector game_hit) = bird game_hit \<and>
      collision_now (before_check game_hit) \<and>
      lives (active_bird (before_check game_hit)) - 1 \<noteq> 0"
    by simp
  from reset_rect_recentred_before_next_check [of game_hit exact_floats "''alice''" db_alice]
    pre
  have r: "\<not> game_started game_after_hit \<and> box_on_centre game_after_hit \<and>
      (\<forall>h h'. rtranclp idle_iteration game_after_hit h \<and>
               running_loop_head h = Inr h' \<and> game_started h' \<and> \<not> paused h' \<longrightarrow>
               box_on_centre (before_check h'))"
    unfolding game_after_hit_def by blast
  then have e: "\<not> game_started game_after_hit" "box_on_centre game_after_hit"
    by simp_all
  from r i head_idle game_next_fields(6,7) have "box_on_centre (before_check game_next)"
    by blast
  with e c collision_before_check_game_hit l idle_after_hit head_idle show ?thesis
    by (simp add: box_on_centre_def before_check_frame game_next_fields game_after_hit_fields)
qed

text \<open>
  The claim as stated fails in its last part. The frame with the collision starts its
  check with the rectangle at y = -33. The first frame after it whose active part runs
  is the one in which SPACE is pressed; its collision check, the first after the reset,
  reads the rectangle at y = 570, centred on the bird at (970, 600), and finds no
  collision.
\<close>

theorem stale_rect_counterexample:
  "collision_now (before_check game_hit) \<and>
   tested_box (before_check game_hit) = \<lparr>rect_x = 940, rect_y = - 33, rect_w = 60, rect_h = 60\<rparr> \<and>
   running_loop_head game_after_hit = Inr game_idle \<and>
   \<not> game_started game_idle \<and>
   running_loop_head game_idle = Inr game_next \<and>
   game_started game_next \<and> \<not> paused game_next \<and>
   bird_y (active_bird (before_check game_next)) = PyInt 600 \<and>
   tested_box (before_check game_next) = \<lparr>rect_x = 940, rect_y = 570, rect_w = 60, rect_h = 60\<rparr> \<and>
   tested_box (before_check game_next) \<noteq> tested_box (before_check game_hit) \<and>
   \<not> collision_now (before_check game_next)"
proof -
  have h: "running_loop_head game_after_hit = Inr game_idle"
    using idle_after_hit by (simp add: idle_iteration_def)
  have box: "tested_box (before_check game_next) =
      \<lparr>rect_x = 940, rect_y = 570, rect_w = 60, rect_h = 60\<rparr>"
    by (simp add: tested_box_def detector_box_def detector_bird_def before_check_frame
        game_next_fields game_after_hit_fields)
  have y: "bird_y (active_bird (before_check game_next)) = PyInt 600"
    by (simp add: active_bird_def before_check_frame game_next_fields)
  have no: "\<not> collision_now (before_check game_next)"
    by (simp add: collision_now_def detect_collision_iff detector_pipes_def detector_box_def
        detector_bird_def hits_pipe_def colliderect_def before_check_frame
        before_check_game_next game_next_fields game_after_hit_fields)
  from collision_before_check_game_hit tested_box_game_hit h head_idle box y no
  show ?thesis by (simp add: game_next_fields game_idle_fields)
qed

end
